theory Spec2Isabelle
  imports Main
begin

section \<open>Python values, exceptions and effects\<close>

text \<open>
  The two source files are \<^verbatim>\<open>ru_smb_companies/__main__.py\<close> (the command line
  front end) and \<^verbatim>\<open>ru_smb_companies/stages/spark_stage.py\<close> (the base class of the
  Spark stages). Every \<^verbatim>\<open>raise\<close> of the source, and every exception Python itself
  raises on the paths modelled here, is a value of \<open>py_error\<close>; a function that can
  raise returns \<open>py_error + 'a\<close> with \<open>Inl\<close> for the exception.
\<close>

datatype py_error =
    NameError string
  | AttributeError string
  | TypeError string
  | RuntimeError string
  | FileNotFoundError string
  | FileExistsError string
  | IsADirectoryError string
  | NotADirectoryError string
  | PermissionError string
  | JSONDecodeError string
  | BadParameter string
  | SparkException string
  | SystemExit int

text \<open>
  Python values, as far as the two files handle them: what \<^verbatim>\<open>json.load\<close> returns,
  what the commands pass on as arguments, and \<open>PObj n\<close> for an object of which
  only the name bound to it is known.

  What a run does to the outside world is recorded as a list of events, in the order in
  which they happen: lines printed, files handed to Spark, files written or moved, and
  the constructions of and calls to the stage classes whose code is not part of the two
  source files (\<open>New cls args\<close>, \<open>Call cls args kwargs\<close>).
\<close>

datatype pyval =
    PNone
  | PBool bool
  | PInt int
  | PStr string
  | PList "pyval list"
  | PDict "(string \<times> pyval) list"
  | PObj string

datatype event =
    Print string
  | PrintArgs "pyval list"
  | SparkReadCsv "(string \<times> string) list" "string list"
  | SparkWriteCsv "(string \<times> string) list" string
  | MkdirParentsOf string
  | Move string string "string list"
  | OpenForWriting string
  | ShowHelp string
  | New string "pyval list"
  | Call string "pyval list" "(string \<times> pyval) list"

section \<open>Strings and paths\<close>

text \<open>\<^verbatim>\<open>str.split(sep)\<close> for a separator of one character: the pieces between
  the separators, empty pieces included, never an empty list.\<close>

fun split_on :: "char \<Rightarrow> string \<Rightarrow> string list" where
  "split_on d [] = [[]]"
| "split_on d (c # cs) =
     (if c = d then [] # split_on d cs
      else (case split_on d cs of
              [] \<Rightarrow> [[c]]
            | w # ws \<Rightarrow> (c # w) # ws))"

text \<open>\<^verbatim>\<open>sep.join(pieces)\<close>.\<close>

fun join_with :: "string \<Rightarrow> string list \<Rightarrow> string" where
  "join_with d [] = []"
| "join_with d [x] = x"
| "join_with d (x # y # ys) = x @ d @ join_with d (y # ys)"

text \<open>\<^verbatim>\<open>str.rfind(c)\<close>: the index of the last occurrence of \<open>c\<close>, or \<open>-1\<close>.
  The scan runs left to right and remembers the last index at which \<open>c\<close> stood.\<close>

fun rfind_from :: "char \<Rightarrow> string \<Rightarrow> nat \<Rightarrow> int \<Rightarrow> int" where
  "rfind_from c [] i found = found"
| "rfind_from c (x # xs) i found = rfind_from c xs (Suc i) (if x = c then int i else found)"

definition rfind :: "char \<Rightarrow> string \<Rightarrow> int" where
  "rfind c s = rfind_from c s 0 (- 1)"

text \<open>
  \<^verbatim>\<open>pathlib.PurePosixPath\<close>: the parts of a path are its components between
  slashes; empty components and \<^verbatim>\<open>.\<close> components are dropped. \<^verbatim>\<open>Path.name\<close>
  is the last part (empty when there is none), and \<^verbatim>\<open>Path.suffix\<close> is
  \<^verbatim>\<open>
    i = name.rfind('.')
    if 0 < i < len(name) - 1: return name[i:]
    else: return ''
  \<close>
\<close>

definition path_parts :: "string \<Rightarrow> string list" where
  "path_parts p = filter (\<lambda>c. c \<noteq> [] \<and> c \<noteq> ''.'') (split_on (CHR ''/'') p)"

definition path_name :: "string \<Rightarrow> string" where
  "path_name p = (case path_parts p of [] \<Rightarrow> [] | _ \<Rightarrow> last (path_parts p))"

definition name_suffix :: "string \<Rightarrow> string" where
  "name_suffix name =
     (let i = rfind (CHR ''.'') name
      in if 0 < i \<and> i < int (length name) - 1 then drop (nat i) name else [])"

definition path_suffix :: "string \<Rightarrow> string" where
  "path_suffix p = name_suffix (path_name p)"

text \<open>\<^verbatim>\<open>path / name\<close> for a relative \<open>name\<close>; an absolute right operand replaces
  the left one, as in pathlib.\<close>

definition path_join :: "string \<Rightarrow> string \<Rightarrow> string" where
  "path_join p n = (case n of
       [] \<Rightarrow> p
     | c # _ \<Rightarrow> if c = CHR ''/'' then n else p @ ''/'' @ n)"

text \<open>
  Matching one file name against a glob pattern (\<^verbatim>\<open>fnmatch\<close>): \<^verbatim>\<open>*\<close> matches any
  run of characters, \<^verbatim>\<open>?\<close> any one character, every other character itself. The
  patterns of the source, \<^verbatim>\<open>data-*.csv\<close> and \<^verbatim>\<open>*.csv\<close>, use nothing else.
\<close>

fun glob_match :: "string \<Rightarrow> string \<Rightarrow> bool" where
  "glob_match [] [] = True"
| "glob_match [] (c # cs) = False"
| "glob_match (p # ps) [] = (p = CHR ''*'' \<and> glob_match ps [])"
| "glob_match (p # ps) (c # cs) =
     (if p = CHR ''*'' then glob_match ps (c # cs) \<or> glob_match (p # ps) cs
      else (p = CHR ''?'' \<or> p = c) \<and> glob_match ps cs)"

section \<open>The file system\<close>

text \<open>
  A path names nothing, a regular file (with its text) or a directory (with the names of
  its entries). \<^verbatim>\<open>Path.glob(pattern)\<close> on a directory yields the entries whose name
  matches, each joined to the directory's path; a directory that cannot be listed yields
  none (pathlib swallows the \<^verbatim>\<open>PermissionError\<close>).
\<close>

datatype node =
    File bool string
  | Dir bool "string list"

type_synonym filesystem = "string \<Rightarrow> node option"

definition path_exists :: "filesystem \<Rightarrow> string \<Rightarrow> bool" where
  "path_exists fs p = (fs p \<noteq> None)"

definition is_dir :: "filesystem \<Rightarrow> string \<Rightarrow> bool" where
  "is_dir fs p = (case fs p of Some (Dir _ _) \<Rightarrow> True | _ \<Rightarrow> False)"

definition is_readable :: "filesystem \<Rightarrow> string \<Rightarrow> bool" where
  "is_readable fs p = (case fs p of
       Some (File r _) \<Rightarrow> r
     | Some (Dir r _) \<Rightarrow> r
     | None \<Rightarrow> False)"

definition path_glob :: "filesystem \<Rightarrow> string \<Rightarrow> string \<Rightarrow> string list" where
  "path_glob fs p pat = (case fs p of
       Some (Dir r names) \<Rightarrow>
         if r then map (path_join p) (filter (glob_match pat) names) else []
     | _ \<Rightarrow> [])"

text \<open>\<^verbatim>\<open>open(path).read()\<close>.\<close>

definition read_text :: "filesystem \<Rightarrow> string \<Rightarrow> py_error + string" where
  "read_text fs p = (case fs p of
       None \<Rightarrow> Inl (FileNotFoundError p)
     | Some (Dir _ _) \<Rightarrow> Inl (IsADirectoryError p)
     | Some (File r txt) \<Rightarrow> if r then Inr txt else Inl (PermissionError p))"

section \<open>The Spark CSV data source\<close>

text \<open>
  \<^verbatim>\<open>SparkStage._read\<close> and \<^verbatim>\<open>SparkStage._write\<close> configure Spark's CSV
  reader and writer through options and leave the rest to Spark. The part of Spark the
  two methods rely on is modelled after Spark's documentation of the CSV data source:
  \<^item> an option that is not set has its documented default: \<^verbatim>\<open>mode\<close> is
    \<^verbatim>\<open>PERMISSIVE\<close>, \<^verbatim>\<open>nullValue\<close> is the empty string, the writer's
    \<^verbatim>\<open>emptyValue\<close> is two double quotes, \<^verbatim>\<open>dateFormat\<close> is \<^verbatim>\<open>yyyy-MM-dd\<close>;
  \<^item> in mode \<^verbatim>\<open>PERMISSIVE\<close> a field that cannot be converted to its column's type
    becomes null and the record is kept; \<^verbatim>\<open>DROPMALFORMED\<close> drops the record;
    \<^verbatim>\<open>FAILFAST\<close> raises;
  \<^item> the writer prints a null as the \<^verbatim>\<open>nullValue\<close> string.
  How the text of a file splits into records and fields, and how a date pattern reads and
  prints a date, belongs to the session (Spark's tokenizer and Java's date formatter):
  the record \<open>spark_session\<close> holds them, and every theorem below holds for every
  session.
\<close>

type_synonym options = "(string \<times> string) list"

definition option_value :: "options \<Rightarrow> string \<Rightarrow> string \<Rightarrow> string" where
  "option_value opts k d = (case map_of opts k of None \<Rightarrow> d | Some v \<Rightarrow> v)"

datatype parse_mode = PERMISSIVE | DROPMALFORMED | FAILFAST

definition to_upper :: "char \<Rightarrow> char" where
  "to_upper c =
     (let n = (of_char c :: nat) in if 97 \<le> n \<and> n \<le> 122 then char_of (n - 32) else c)"

definition read_mode :: "options \<Rightarrow> parse_mode" where
  "read_mode opts = (case map_of opts ''mode'' of
       None \<Rightarrow> PERMISSIVE
     | Some m \<Rightarrow>
         if map to_upper m = ''DROPMALFORMED'' then DROPMALFORMED
         else if map to_upper m = ''FAILFAST'' then FAILFAST
         else PERMISSIVE)"

datatype field_type = StringType | DateType

datatype cell = Null | Text string | Date nat nat nat

type_synonym schema = "(string \<times> field_type) list"

record dataframe =
  columns :: schema
  rows :: "cell list list"

record spark_session =
  csv_tokens :: "options \<Rightarrow> string \<Rightarrow> string list list"
  parse_date :: "string \<Rightarrow> string \<Rightarrow> (nat \<times> nat \<times> nat) option"
  format_date :: "string \<Rightarrow> nat \<times> nat \<times> nat \<Rightarrow> string"

text \<open>One field of one record: \<open>None\<close> when the text cannot be converted to the
  column's type, \<open>Some Null\<close> when it is the \<^verbatim>\<open>nullValue\<close> string.\<close>

definition convert_field :: "spark_session \<Rightarrow> options \<Rightarrow> field_type \<Rightarrow> string \<Rightarrow> cell option" where
  "convert_field S opts ty t =
     (if t = option_value opts ''nullValue'' [] then Some Null
      else (case ty of
              StringType \<Rightarrow> Some (Text t)
            | DateType \<Rightarrow>
                (case parse_date S (option_value opts ''dateFormat'' ''yyyy-MM-dd'') t of
                   None \<Rightarrow> None
                 | Some (y, m, d) \<Rightarrow> Some (Date y m d))))"

text \<open>The fields of one record against the schema; a record with too few fields has
  no text for its last columns.\<close>

fun convert_fields :: "spark_session \<Rightarrow> options \<Rightarrow> schema \<Rightarrow> string list \<Rightarrow> cell option list" where
  "convert_fields S opts [] ts = []"
| "convert_fields S opts ((n, ty) # sch) [] = None # convert_fields S opts sch []"
| "convert_fields S opts ((n, ty) # sch) (t # ts) =
     convert_field S opts ty t # convert_fields S opts sch ts"

definition malformed :: "schema \<Rightarrow> string list \<Rightarrow> cell option list \<Rightarrow> bool" where
  "malformed sch ts cs = (length ts \<noteq> length sch \<or> None \<in> set cs)"

definition permissive_row :: "cell option list \<Rightarrow> cell list" where
  "permissive_row cs = map (\<lambda>c. case c of None \<Rightarrow> Null | Some v \<Rightarrow> v) cs"

fun read_records :: "spark_session \<Rightarrow> options \<Rightarrow> schema \<Rightarrow> string list list \<Rightarrow> py_error + cell list list" where
  "read_records S opts sch [] = Inr []"
| "read_records S opts sch (ts # rest) =
     (let cs = convert_fields S opts sch ts;
          bad = malformed sch ts cs
      in if bad \<and> read_mode opts = FAILFAST then Inl (SparkException ''Malformed CSV record'')
         else (case read_records S opts sch rest of
                 Inl e \<Rightarrow> Inl e
               | Inr rs \<Rightarrow>
                   Inr (if bad \<and> read_mode opts = DROPMALFORMED then rs
                        else permissive_row cs # rs)))"

text \<open>The records of one file: with \<^verbatim>\<open>header=true\<close> the first one is the header.\<close>

definition data_records :: "spark_session \<Rightarrow> options \<Rightarrow> string \<Rightarrow> string list list" where
  "data_records S opts txt =
     (if map to_upper (option_value opts ''header'' ''false'') = ''TRUE''
      then drop 1 (csv_tokens S opts txt) else csv_tokens S opts txt)"

fun file_records :: "spark_session \<Rightarrow> filesystem \<Rightarrow> options \<Rightarrow> string list \<Rightarrow> py_error + string list list" where
  "file_records S fs opts [] = Inr []"
| "file_records S fs opts (f # fl) =
     (case read_text fs f of
        Inl e \<Rightarrow> Inl e
      | Inr txt \<Rightarrow>
          (case file_records S fs opts fl of
             Inl e \<Rightarrow> Inl e
           | Inr rs \<Rightarrow> Inr (data_records S opts txt @ rs)))"

text \<open>\<^verbatim>\<open>session.read.options(**opts).schema(schema).csv(files)\<close>, evaluated.\<close>

definition spark_read_csv :: "spark_session \<Rightarrow> filesystem \<Rightarrow> options \<Rightarrow> schema \<Rightarrow> string list \<Rightarrow> py_error + dataframe" where
  "spark_read_csv S fs opts sch files =
     (case file_records S fs opts files of
        Inl e \<Rightarrow> Inl e
      | Inr recs \<Rightarrow>
          (case read_records S opts sch recs of
             Inl e \<Rightarrow> Inl e
           | Inr rs \<Rightarrow> Inr \<lparr>columns = sch, rows = rs\<rparr>))"

section \<open>\<^verbatim>\<open>SparkStage._read\<close>\<close>

text \<open>Decimal digits of a number, for the f-string of the row count.\<close>

fun str_nat :: "nat \<Rightarrow> string" where
  "str_nat n =
     (if n < 10 then [char_of (48 + n)]
      else str_nat (n div 10) @ [char_of (48 + n mod 10)])"

text \<open>
  \<^verbatim>\<open>
  def _read(self, in_path, schema):
      path = pathlib.Path(in_path)
      if not path.exists():
          print(f"Input path {in_path} not found")
          return None
      if path.is_dir():
          input_files = [str(fn) for fn in path.glob("data-*.csv")]
      elif path.suffix == "csv":
          input_files = [str(path)]
      else:
          input_files = []
      if len(input_files) == 0:
          print("Input path does not contain readable CSV file(s)")
          return None
      data = self._session.read.options(
          header=True, dateFormat="dd.MM.yyyy", escape='"'
      ).schema(schema).csv(input_files)
      print(f"Source CSV contains {data.count()} rows")
      return data
  \<close>
  The result is the list of events and either the exception Spark raised or the value
  returned: \<open>None\<close> for Python's \<^verbatim>\<open>None\<close>, \<open>Some df\<close> for a data frame.
\<close>

definition read_options :: options where
  "read_options =
     [(''header'', ''true''), (''dateFormat'', ''dd.MM.yyyy''), (''escape'', [CHR 0x22])]"

definition SparkStage_read ::
  "spark_session \<Rightarrow> filesystem \<Rightarrow> string \<Rightarrow> schema \<Rightarrow> event list \<times> (py_error + dataframe option)" where
  "SparkStage_read S fs in_path sch =
     (if \<not> path_exists fs in_path
      then ([Print (''Input path '' @ in_path @ '' not found'')], Inr None)
      else
        let input_files =
              (if is_dir fs in_path then path_glob fs in_path ''data-*.csv''
               else if path_suffix in_path = ''csv'' then [in_path]
               else [])
        in if length input_files = 0
           then ([Print ''Input path does not contain readable CSV file(s)''], Inr None)
           else (case spark_read_csv S fs read_options sch input_files of
                   Inl e \<Rightarrow> ([SparkReadCsv read_options input_files], Inl e)
                 | Inr data \<Rightarrow>
                     ([SparkReadCsv read_options input_files,
                       Print (''Source CSV contains '' @ str_nat (length (rows data)) @ '' rows'')],
                      Inr (Some data))))"

section \<open>\<^verbatim>\<open>SparkStage._write\<close>\<close>

text \<open>
  How the writer prints one cell. A null is printed as the \<^verbatim>\<open>nullValue\<close> option, an
  empty string as the \<^verbatim>\<open>emptyValue\<close> option, any other string as it is, in double
  quotes when it holds a comma, a double quote or a line break (a double quote inside
  is preceded by the \<^verbatim>\<open>escape\<close> character), a date by the session's formatter.
\<close>

definition escape_char :: "options \<Rightarrow> char" where
  "escape_char opts = (case option_value opts ''escape'' [CHR 0x5C] of
       [] \<Rightarrow> CHR 0x5C
     | c # _ \<Rightarrow> c)"

definition needs_quotes :: "string \<Rightarrow> bool" where
  "needs_quotes s = list_ex (\<lambda>c. c = CHR '','' \<or> c = CHR 0x22 \<or> c = CHR 0x0A \<or> c = CHR 0x0D) s"

definition quote_field :: "char \<Rightarrow> string \<Rightarrow> string" where
  "quote_field esc s =
     CHR 0x22 # concat (map (\<lambda>c. if c = CHR 0x22 then [esc, c] else [c]) s) @ [CHR 0x22]"

definition render_cell :: "spark_session \<Rightarrow> options \<Rightarrow> cell \<Rightarrow> string" where
  "render_cell S opts c = (case c of
       Null \<Rightarrow> option_value opts ''nullValue'' []
     | Text s \<Rightarrow>
         if s = [] then option_value opts ''emptyValue'' [CHR 0x22, CHR 0x22]
         else if needs_quotes s then quote_field (escape_char opts) s
         else s
     | Date y m d \<Rightarrow> format_date S (option_value opts ''dateFormat'' ''yyyy-MM-dd'') (y, m, d))"

definition csv_fields :: "spark_session \<Rightarrow> options \<Rightarrow> cell list \<Rightarrow> string list" where
  "csv_fields S opts row = map (render_cell S opts) row"

definition csv_line :: "spark_session \<Rightarrow> options \<Rightarrow> cell list \<Rightarrow> string" where
  "csv_line S opts row = join_with '','' (csv_fields S opts row)"

definition csv_lines :: "spark_session \<Rightarrow> options \<Rightarrow> dataframe \<Rightarrow> string list" where
  "csv_lines S opts df =
     (if map to_upper (option_value opts ''header'' ''false'') = ''TRUE''
      then [csv_line S opts (map (\<lambda>(n, ty). Text n) (columns df))] else [])
     @ map (csv_line S opts) (rows df)"

text \<open>
  \<^verbatim>\<open>df.coalesce(1).write.options(**options).csv(out_dir, mode="overwrite")\<close>: the
  files Spark leaves in \<open>out_dir\<close>, by name, each with its lines. With one partition
  there is one part file, under a name Spark chooses (the argument \<open>part\<close>), beside
  the marker file \<^verbatim>\<open>_SUCCESS\<close>.
\<close>

definition spark_write_csv ::
  "spark_session \<Rightarrow> options \<Rightarrow> dataframe \<Rightarrow> string \<Rightarrow> (string \<times> string list) list" where
  "spark_write_csv S opts df part = [(''_SUCCESS'', []), (part, csv_lines S opts df)]"

text \<open>
  \<^verbatim>\<open>
  def _write(self, df, out_file):
      with tempfile.TemporaryDirectory() as out_dir:
          options = dict(header=True, nullValue="NA", escape='"')
          df.coalesce(1).write.options(**options).csv(out_dir, mode="overwrite")
          result = next(pathlib.Path(out_dir).glob("*.csv"), None)
          if result is None:
              print("Failed to save file")
          pathlib.Path(out_file).parent.mkdir(parents=True, exist_ok=True)
          shutil.move(result, out_file)
  \<close>
  The data frame argument is whatever the caller passes, \<^verbatim>\<open>None\<close> included (the
  value \<^verbatim>\<open>_read\<close> returns when there is nothing to read): then
  \<^verbatim>\<open>df.coalesce\<close> raises before anything is written. \<open>out_dir\<close> is the name of the
  temporary directory.
\<close>

definition write_options :: options where
  "write_options =
     [(''header'', ''true''), (''nullValue'', ''NA''), (''escape'', [CHR 0x22])]"

definition SparkStage_write ::
  "spark_session \<Rightarrow> string \<Rightarrow> string \<Rightarrow> dataframe option \<Rightarrow> string \<Rightarrow> event list \<times> (py_error + unit)" where
  "SparkStage_write S out_dir part df out_file = (case df of
       None \<Rightarrow> ([], Inl (AttributeError ''coalesce''))
     | Some d \<Rightarrow>
         let options = write_options;
             produced = spark_write_csv S options d part;
             result = find (\<lambda>(n, ls). glob_match ''*.csv'' n) produced
         in (case result of
               None \<Rightarrow>
                 ([SparkWriteCsv options out_dir, Print ''Failed to save file'',
                   MkdirParentsOf out_file],
                  Inl (TypeError ''shutil.move''))
             | Some (n, ls) \<Rightarrow>
                 ([SparkWriteCsv options out_dir, MkdirParentsOf out_file,
                   Move (path_join out_dir n) out_file ls],
                  Inr ())))"

section \<open>A concrete session\<close>

text \<open>
  A session to run the model on concrete inputs: records are lines, fields are the
  pieces between commas (no quoting), and a date pattern is read strictly, letter by
  letter: a run of \<open>n\<close> letters \<^verbatim>\<open>y\<close>, \<^verbatim>\<open>M\<close> or \<^verbatim>\<open>d\<close> stands for exactly
  \<open>n\<close> digits of the year, month or day, any other character for itself, and the
  date must exist in the calendar.
\<close>

fun pattern_runs :: "string \<Rightarrow> (char \<times> nat) list" where
  "pattern_runs [] = []"
| "pattern_runs (c # cs) = (case pattern_runs cs of
       [] \<Rightarrow> [(c, 1)]
     | (d, n) # rs \<Rightarrow> if c = d then (d, Suc n) # rs else (c, 1) # (d, n) # rs)"

definition is_digit :: "char \<Rightarrow> bool" where
  "is_digit c = (c \<in> set ''0123456789'')"

definition nat_of_digits :: "string \<Rightarrow> nat" where
  "nat_of_digits s = foldl (\<lambda>a c. 10 * a + (of_char c - 48)) 0 s"

fun parse_runs ::
  "(char \<times> nat) list \<Rightarrow> string \<Rightarrow> nat option \<times> nat option \<times> nat option
     \<Rightarrow> (nat option \<times> nat option \<times> nat option) option" where
  "parse_runs [] t acc = (if t = [] then Some acc else None)"
| "parse_runs ((c, n) # rs) t (y, m, d) =
     (if length t < n then None
      else if c = CHR ''y'' \<or> c = CHR ''M'' \<or> c = CHR ''d'' then
        (if list_all is_digit (take n t) then
           parse_runs rs (drop n t)
             (if c = CHR ''y'' then (Some (nat_of_digits (take n t)), m, d)
              else if c = CHR ''M'' then (y, Some (nat_of_digits (take n t)), d)
              else (y, m, Some (nat_of_digits (take n t))))
         else None)
      else if take n t = replicate n c then parse_runs rs (drop n t) (y, m, d)
      else None)"

definition days_in_month :: "nat \<Rightarrow> nat \<Rightarrow> nat" where
  "days_in_month y m =
     (if m = 2 then (if y mod 4 = 0 \<and> (y mod 100 \<noteq> 0 \<or> y mod 400 = 0) then 29 else 28)
      else if m = 4 \<or> m = 6 \<or> m = 9 \<or> m = 11 then 30
      else 31)"

definition strict_parse_date :: "string \<Rightarrow> string \<Rightarrow> (nat \<times> nat \<times> nat) option" where
  "strict_parse_date pat t = (case parse_runs (pattern_runs pat) t (None, None, None) of
       Some (Some y, Some m, Some d) \<Rightarrow>
         if 1 \<le> m \<and> m \<le> 12 \<and> 1 \<le> d \<and> d \<le> days_in_month y m then Some (y, m, d) else None
     | _ \<Rightarrow> None)"

definition pad_nat :: "nat \<Rightarrow> nat \<Rightarrow> string" where
  "pad_nat w n = replicate (w - length (str_nat n)) (CHR ''0'') @ str_nat n"

definition strict_format_date :: "string \<Rightarrow> nat \<times> nat \<times> nat \<Rightarrow> string" where
  "strict_format_date pat ymd = (case ymd of (y, m, d) \<Rightarrow>
     concat (map (\<lambda>(c, n).
         if c = CHR ''y'' then pad_nat n y
         else if c = CHR ''M'' then pad_nat n m
         else if c = CHR ''d'' then pad_nat n d
         else replicate n c) (pattern_runs pat)))"

definition plain_tokens :: "options \<Rightarrow> string \<Rightarrow> string list list" where
  "plain_tokens opts txt =
     map (split_on (CHR '','')) (filter (\<lambda>l. l \<noteq> []) (split_on (CHR 0x0A) txt))"

definition plain_session :: spark_session where
  "plain_session =
     \<lparr>csv_tokens = plain_tokens, parse_date = strict_parse_date, format_date = strict_format_date\<rparr>"

section \<open>Runs: events and exceptions in sequence\<close>

text \<open>
  A run is the list of events of a piece of Python and how it ended: with an exception
  or with a value. \<open>and_then\<close> is the semicolon: the second part runs only when the
  first one returned, and the events of both are kept in order.
\<close>

type_synonym 'a run = "event list \<times> (py_error + 'a)"

definition finish :: "'a \<Rightarrow> 'a run" where
  "finish x = ([], Inr x)"

definition raise :: "py_error \<Rightarrow> 'a run" where
  "raise e = ([], Inl e)"

definition emit :: "event \<Rightarrow> unit run" where
  "emit ev = ([ev], Inr ())"

definition attempt :: "py_error + 'a \<Rightarrow> 'a run" where
  "attempt r = ([], r)"

definition and_then :: "'a run \<Rightarrow> ('a \<Rightarrow> 'b run) \<Rightarrow> 'b run" where
  "and_then m f = (case m of
       (ev, Inl e) \<Rightarrow> (ev, Inl e)
     | (ev, Inr x) \<Rightarrow> (case f x of (ev', r) \<Rightarrow> (ev @ ev', r)))"

section \<open>Names: the module's globals and the builtins\<close>

text \<open>
  A name that a function body uses and does not bind itself is looked up when the
  statement runs: first among the module's globals, then among the builtins; a name
  found in neither raises \<^verbatim>\<open>NameError\<close>. The globals of \<^verbatim>\<open>__main__.py\<close> are the
  names its top level binds: the imports, the assignments and the \<^verbatim>\<open>def\<close>s, and
  \<^verbatim>\<open>f\<close> when \<^verbatim>\<open>open(app_config_path)\<close> succeeded (the \<^verbatim>\<open>with ... as f\<close> at lines
  53 to 55).
\<close>

definition module_globals :: "bool \<Rightarrow> string list" where
  "module_globals opened =
     [''__name__'', ''__doc__'', ''__package__'', ''__loader__'', ''__spec__'', ''__file__'',
      ''__builtins__'',
      ''enum'', ''json'', ''pathlib'', ''List'', ''Optional'', ''Annotated'', ''typer'',
      ''Aggregator'', ''Downloader'', ''Extractor'', ''Georeferencer'', ''Panelizer'',
      ''SourceDatasets'', ''StageNames'', ''Storages'',
      ''APP_NAME'', ''app'', ''download_app'', ''extract_app'', ''aggregate_app'',
      ''default_config'', ''app_dir'', ''app_config_path'']
     @ (if opened then [''f''] else [])
     @ [''app_config'', ''get_default_path'', ''get_downloader'',
        ''download_all'', ''download_smb'', ''download_revexp'', ''download_empl'',
        ''extract_all'', ''extract_smb'', ''extract_revexp'', ''extract_empl'',
        ''aggregate_all'', ''aggregate_smb'', ''aggregate_revexp'', ''aggregate_empl'',
        ''georeference'', ''panelize'', ''config'', ''process'']"

definition builtin_names :: "string list" where
  "builtin_names =
     [''abs'', ''aiter'', ''all'', ''anext'', ''any'', ''ascii'', ''bin'', ''bool'',
      ''breakpoint'', ''bytearray'', ''bytes'', ''callable'', ''chr'', ''classmethod'',
      ''compile'', ''complex'', ''copyright'', ''credits'', ''delattr'', ''dict'', ''dir'',
      ''divmod'', ''enumerate'', ''eval'', ''exec'', ''exit'', ''filter'', ''float'',
      ''format'', ''frozenset'', ''getattr'', ''globals'', ''hasattr'', ''hash'', ''help'',
      ''hex'', ''id'', ''input'', ''int'', ''isinstance'', ''issubclass'', ''iter'', ''len'',
      ''license'', ''list'', ''locals'', ''map'', ''max'', ''memoryview'', ''min'', ''next'',
      ''object'', ''oct'', ''open'', ''ord'', ''pow'', ''print'', ''property'', ''quit'',
      ''range'', ''repr'', ''reversed'', ''round'', ''set'', ''setattr'', ''slice'',
      ''sorted'', ''staticmethod'', ''str'', ''sum'', ''super'', ''tuple'', ''type'',
      ''vars'', ''zip'', ''__import__'', ''__build_class__'', ''__debug__'',
      ''True'', ''False'', ''None'', ''Ellipsis'', ''NotImplemented'',
      ''BaseException'', ''BaseExceptionGroup'', ''Exception'', ''ExceptionGroup'',
      ''ArithmeticError'', ''AssertionError'', ''AttributeError'', ''BlockingIOError'',
      ''BrokenPipeError'', ''BufferError'', ''BytesWarning'', ''ChildProcessError'',
      ''ConnectionAbortedError'', ''ConnectionError'', ''ConnectionRefusedError'',
      ''ConnectionResetError'', ''DeprecationWarning'', ''EOFError'', ''EncodingWarning'',
      ''EnvironmentError'', ''FileExistsError'', ''FileNotFoundError'',
      ''FloatingPointError'', ''FutureWarning'', ''GeneratorExit'', ''IOError'',
      ''ImportError'', ''ImportWarning'', ''IndentationError'', ''IndexError'',
      ''InterruptedError'', ''IsADirectoryError'', ''KeyError'', ''KeyboardInterrupt'',
      ''LookupError'', ''MemoryError'', ''ModuleNotFoundError'', ''NameError'',
      ''NotADirectoryError'', ''NotImplementedError'', ''OSError'', ''OverflowError'',
      ''PendingDeprecationWarning'', ''PermissionError'', ''ProcessLookupError'',
      ''RecursionError'', ''ReferenceError'', ''ResourceWarning'', ''RuntimeError'',
      ''RuntimeWarning'', ''StopAsyncIteration'', ''StopIteration'', ''SyntaxError'',
      ''SyntaxWarning'', ''SystemError'', ''SystemExit'', ''TabError'', ''TimeoutError'',
      ''TypeError'', ''UnboundLocalError'', ''UnicodeDecodeError'', ''UnicodeEncodeError'',
      ''UnicodeError'', ''UnicodeTranslateError'', ''UnicodeWarning'', ''UserWarning'',
      ''ValueError'', ''Warning'', ''ZeroDivisionError'']"

definition load_global :: "string list \<Rightarrow> string \<Rightarrow> pyval run" where
  "load_global G n =
     (if n \<in> set G \<or> n \<in> set builtin_names then finish (PObj n) else raise (NameError n))"

fun load_globals :: "string list \<Rightarrow> string list \<Rightarrow> unit run" where
  "load_globals G [] = finish ()"
| "load_globals G (n # ns) = and_then (load_global G n) (\<lambda>_. load_globals G ns)"

section \<open>Dictionaries\<close>

text \<open>A dictionary is the list of its items in insertion order, one pair per key.
  \<^verbatim>\<open>d.get(key)\<close>, \<^verbatim>\<open>d[key] = value\<close> and \<^verbatim>\<open>d.items()\<close> are applied to a
  value that may or may not be a dictionary, as Python does.\<close>

fun assoc_set :: "string \<Rightarrow> pyval \<Rightarrow> (string \<times> pyval) list \<Rightarrow> (string \<times> pyval) list" where
  "assoc_set k v [] = [(k, v)]"
| "assoc_set k v ((k', v') # kv) =
     (if k' = k then (k, v) # kv else (k', v') # assoc_set k v kv)"

definition dict_get :: "pyval \<Rightarrow> string \<Rightarrow> py_error + pyval" where
  "dict_get d k = (case d of
       PDict kv \<Rightarrow> (case map_of kv k of None \<Rightarrow> Inr PNone | Some v \<Rightarrow> Inr v)
     | _ \<Rightarrow> Inl (AttributeError ''get''))"

definition dict_set :: "pyval \<Rightarrow> string \<Rightarrow> pyval \<Rightarrow> py_error + pyval" where
  "dict_set d k v = (case d of
       PDict kv \<Rightarrow> Inr (PDict (assoc_set k v kv))
     | _ \<Rightarrow> Inl (TypeError ''item assignment''))"

definition dict_items :: "pyval \<Rightarrow> py_error + (string \<times> pyval) list" where
  "dict_items d = (case d of
       PDict kv \<Rightarrow> Inr kv
     | _ \<Rightarrow> Inl (AttributeError ''items''))"

section \<open>Creating directories\<close>

text \<open>
  \<^verbatim>\<open>Path.mkdir(parents=True, exist_ok=True)\<close>, as pathlib writes it:
  \<^verbatim>\<open>
  try:
      os.mkdir(self, mode)
  except FileNotFoundError:
      if not parents or self.parent == self: raise
      self.parent.mkdir(parents=True, exist_ok=True)
      self.mkdir(mode, parents=False, exist_ok=exist_ok)
  except OSError:
      if not exist_ok or not self.is_dir(): raise
  \<close>
  \<^verbatim>\<open>os.mkdir\<close> raises \<^verbatim>\<open>FileExistsError\<close> when the path exists,
  \<^verbatim>\<open>FileNotFoundError\<close> when its parent does not, \<^verbatim>\<open>NotADirectoryError\<close> when
  its parent is a file and \<^verbatim>\<open>PermissionError\<close> when the process may not write into
  its parent. A path is the list of its parts, the last part first; the root and the
  working directory exist. \<open>W\<close> says into which directories the process may write.
\<close>

definition path_of :: "bool \<Rightarrow> string list \<Rightarrow> string" where
  "path_of absolute parts = (if absolute then ''/'' else []) @ join_with ''/'' parts"

definition create_dir ::
  "(string \<Rightarrow> bool) \<Rightarrow> filesystem \<Rightarrow> string \<Rightarrow> string \<Rightarrow> string \<Rightarrow> py_error + filesystem" where
  "create_dir W fs p d c =
     (if \<not> W p then Inl (PermissionError d)
      else Inr (case fs p of
                  Some (Dir r names) \<Rightarrow> fs(d \<mapsto> Dir True [], p \<mapsto> Dir r (names @ [c]))
                | _ \<Rightarrow> fs(d \<mapsto> Dir True [])))"

fun mkdir_rev ::
  "(string \<Rightarrow> bool) \<Rightarrow> filesystem \<Rightarrow> bool \<Rightarrow> string list \<Rightarrow> py_error + filesystem" where
  "mkdir_rev W fs absolute [] = Inr fs"
| "mkdir_rev W fs absolute (c # up) =
     (let d = path_of absolute (rev (c # up));
          p = path_of absolute (rev up)
      in case fs d of
           Some (Dir r names) \<Rightarrow> Inr fs
         | Some (File r txt) \<Rightarrow> Inl (FileExistsError d)
         | None \<Rightarrow>
             (case (if up = [] then Some (Dir True []) else fs p) of
                Some (Dir r names) \<Rightarrow> create_dir W fs p d c
              | Some (File r txt) \<Rightarrow> Inl (NotADirectoryError d)
              | None \<Rightarrow>
                  (case mkdir_rev W fs absolute up of
                     Inl e \<Rightarrow> Inl e
                   | Inr fs' \<Rightarrow> create_dir W fs' p d c)))"

definition mkdir_parents :: "(string \<Rightarrow> bool) \<Rightarrow> filesystem \<Rightarrow> string \<Rightarrow> py_error + filesystem" where
  "mkdir_parents W fs d =
     mkdir_rev W fs (case d of [] \<Rightarrow> False | c # _ \<Rightarrow> c = CHR ''/'') (rev (path_parts d))"

section \<open>\<^verbatim>\<open>__main__.py\<close>: loading the configuration\<close>

text \<open>
  \<^verbatim>\<open>
  default_config = dict(storage="local", token="", num_workers=1, chunksize=16)

  app_dir = typer.get_app_dir(APP_NAME)
  app_config_path = pathlib.Path(app_dir) / "config.json"
  app_config_path.parent.mkdir(parents=True, exist_ok=True)
  try:
      with open(app_config_path) as f:
          app_config = json.load(f)
  except:
      app_config = {}
      print("Failed to load config, default options are loaded")
      app_config = default_config
  \<close>
  The \<^verbatim>\<open>mkdir\<close> of line 52 stands outside the \<^verbatim>\<open>try\<close>: when it raises, the
  import of the module ends with its exception and no command runs. The bare
  \<^verbatim>\<open>except\<close> catches whatever \<^verbatim>\<open>open\<close> or the parser raises.
  \<^verbatim>\<open>json.loads\<close> is the parser of the standard library, a parameter here; it may
  return any JSON value, not only an object. The result is the value bound to
  \<^verbatim>\<open>app_config\<close> and the file system after the \<^verbatim>\<open>mkdir\<close>.
\<close>

definition default_config :: pyval where
  "default_config =
     PDict [(''storage'', PStr ''local''), (''token'', PStr ''''),
            (''num_workers'', PInt 1), (''chunksize'', PInt 16)]"

definition load_app_config ::
  "(string \<Rightarrow> bool) \<Rightarrow> (string \<Rightarrow> py_error + pyval) \<Rightarrow> filesystem \<Rightarrow> string
     \<Rightarrow> (pyval \<times> filesystem) run" where
  "load_app_config W json_loads fs app_dir =
     (let app_config_path = path_join app_dir ''config.json''
      in case mkdir_parents W fs app_dir of
           Inl e \<Rightarrow> ([], Inl e)
         | Inr fs' \<Rightarrow>
             (case read_text fs' app_config_path of
                Inl e \<Rightarrow>
                  ([Print ''Failed to load config, default options are loaded''],
                   Inr (default_config, fs'))
              | Inr txt \<Rightarrow>
                  (case json_loads txt of
                     Inl e \<Rightarrow>
                       ([Print ''Failed to load config, default options are loaded''],
                        Inr (default_config, fs'))
                   | Inr v \<Rightarrow> ([], Inr (v, fs')))))"

section \<open>\<^verbatim>\<open>__main__.py\<close>: the stage classes and the enumeration\<close>

text \<open>
  \<^verbatim>\<open>Extractor\<close> and \<^verbatim>\<open>Aggregator\<close> are imported from modules that are not among the
  sources. What constructing one and calling one does is therefore a parameter: a
  \<open>stage_class\<close> gives the run of the constructor and the run of \<^verbatim>\<open>__call__\<close> for
  the arguments passed. The model records each construction and each call as an event
  before it hands over to the parameter.
\<close>

record stage_class =
  construct :: "pyval list \<Rightarrow> unit run"
  invoke :: "pyval list \<Rightarrow> (string \<times> pyval) list \<Rightarrow> unit run"

definition new_stage :: "string \<Rightarrow> stage_class \<Rightarrow> pyval list \<Rightarrow> unit run" where
  "new_stage cls C args = and_then (emit (New cls args)) (\<lambda>_. construct C args)"

definition call_stage ::
  "string \<Rightarrow> stage_class \<Rightarrow> pyval list \<Rightarrow> (string \<times> pyval) list \<Rightarrow> unit run" where
  "call_stage cls C args kwargs =
     and_then (emit (Call cls args kwargs)) (\<lambda>_. invoke C args kwargs)"

text \<open>
  Modelled from the spec: the enumeration \<^verbatim>\<open>utils.enums.SourceDatasets\<close> is not among
  the sources. Its members are the spec's three dataset kinds, in the order of the
  commands, with the values \<^verbatim>\<open>__main__.py\<close> compares them with at line 332 and names
  its commands after.
\<close>

datatype SourceDatasets = smb | revexp | empl

fun SourceDatasets_value :: "SourceDatasets \<Rightarrow> string" where
  "SourceDatasets_value smb = ''smb''"
| "SourceDatasets_value revexp = ''revexp''"
| "SourceDatasets_value empl = ''empl''"

definition SourceDatasets_members :: "SourceDatasets list" where
  "SourceDatasets_members = [smb, revexp, empl]"

section \<open>\<^verbatim>\<open>__main__.py\<close>: the extract commands\<close>

text \<open>
  Each of the four extract commands starts with the same lines:
  \<^verbatim>\<open>
  num_workers = app_config.get("num_workers")
  chunksize = app_config.get("chunksize")
  storage = app_config.get("storage")
  token = app_config.get("token")
  if storage in ("ydisk",) and token is None:
      raise RuntimeError("Token is required to use ydisk storage")
  e = Extractor(storage, num_workers, chunksize, token)
  \<close>
  \<open>G\<close> is the list of the module's globals and \<open>cfg\<close> the value bound to
  \<^verbatim>\<open>app_config\<close>. Paths are modelled by their strings, so \<^verbatim>\<open>str(path)\<close> is the
  path itself.
\<close>

definition new_extractor :: "string list \<Rightarrow> stage_class \<Rightarrow> pyval \<Rightarrow> unit run" where
  "new_extractor G E cfg =
     and_then (load_global G ''app_config'') (\<lambda>_.
     and_then (attempt (dict_get cfg ''num_workers'')) (\<lambda>num_workers.
     and_then (attempt (dict_get cfg ''chunksize'')) (\<lambda>chunksize.
     and_then (attempt (dict_get cfg ''storage'')) (\<lambda>storage.
     and_then (attempt (dict_get cfg ''token'')) (\<lambda>token.
       if storage = PStr ''ydisk'' \<and> token = PNone
       then and_then (load_global G ''RuntimeError'') (\<lambda>_.
              raise (RuntimeError ''Token is required to use ydisk storage''))
       else and_then (load_global G ''Extractor'') (\<lambda>_.
              new_stage ''Extractor'' E [storage, num_workers, chunksize, token]))))))"

text \<open>\<^verbatim>\<open>e(str(in_dir), str(out_dir), SourceDatasets.smb.value, clear, ac)\<close>\<close>

definition extract_smb ::
  "string list \<Rightarrow> stage_class \<Rightarrow> pyval \<Rightarrow> string \<Rightarrow> string \<Rightarrow> bool \<Rightarrow> pyval \<Rightarrow> unit run" where
  "extract_smb G E cfg in_dir out_dir clear ac =
     and_then (new_extractor G E cfg) (\<lambda>_.
     and_then (load_globals G [''str'', ''str'', ''SourceDatasets'']) (\<lambda>_.
       call_stage ''Extractor'' E
         [PStr in_dir, PStr out_dir, PStr (SourceDatasets_value smb), PBool clear, ac] []))"

text \<open>\<^verbatim>\<open>e(str(in_dir), str(out_dir), SourceDatasets.revexp.value, clear)\<close>\<close>

definition extract_revexp ::
  "string list \<Rightarrow> stage_class \<Rightarrow> pyval \<Rightarrow> string \<Rightarrow> string \<Rightarrow> bool \<Rightarrow> unit run" where
  "extract_revexp G E cfg in_dir out_dir clear =
     and_then (new_extractor G E cfg) (\<lambda>_.
     and_then (load_globals G [''str'', ''str'', ''SourceDatasets'']) (\<lambda>_.
       call_stage ''Extractor'' E
         [PStr in_dir, PStr out_dir, PStr (SourceDatasets_value revexp), PBool clear] []))"

definition extract_empl ::
  "string list \<Rightarrow> stage_class \<Rightarrow> pyval \<Rightarrow> string \<Rightarrow> string \<Rightarrow> bool \<Rightarrow> unit run" where
  "extract_empl G E cfg in_dir out_dir clear =
     and_then (new_extractor G E cfg) (\<lambda>_.
     and_then (load_globals G [''str'', ''str'', ''SourceDatasets'']) (\<lambda>_.
       call_stage ''Extractor'' E
         [PStr in_dir, PStr out_dir, PStr (SourceDatasets_value empl), PBool clear] []))"

text \<open>
  \<^verbatim>\<open>
  for source_dataset in SourceDatasets:
      args = dict(
          in_dir=str(in_dir / source_dataset.value),
          out_dir=str(out_dir / source_dataset.value),
          mode=source_dataset.value,
          clear=clear,
          activity_codes=ac,
      )
      e(**args)
  \<close>
\<close>

fun extract_each ::
  "string list \<Rightarrow> stage_class \<Rightarrow> string \<Rightarrow> string \<Rightarrow> bool \<Rightarrow> pyval \<Rightarrow> SourceDatasets list \<Rightarrow> unit run" where
  "extract_each G E in_dir out_dir clear ac [] = finish ()"
| "extract_each G E in_dir out_dir clear ac (ds # rest) =
     and_then (load_globals G [''dict'', ''str'', ''str'']) (\<lambda>_.
     and_then (call_stage ''Extractor'' E []
         [(''in_dir'', PStr (path_join in_dir (SourceDatasets_value ds))),
          (''out_dir'', PStr (path_join out_dir (SourceDatasets_value ds))),
          (''mode'', PStr (SourceDatasets_value ds)),
          (''clear'', PBool clear),
          (''activity_codes'', ac)]) (\<lambda>_.
       extract_each G E in_dir out_dir clear ac rest))"

definition extract_all ::
  "string list \<Rightarrow> stage_class \<Rightarrow> pyval \<Rightarrow> string \<Rightarrow> string \<Rightarrow> bool \<Rightarrow> pyval \<Rightarrow> unit run" where
  "extract_all G E cfg in_dir out_dir clear ac =
     and_then (new_extractor G E cfg) (\<lambda>_.
     and_then (load_global G ''SourceDatasets'') (\<lambda>_.
       extract_each G E in_dir out_dir clear ac SourceDatasets_members))"

section \<open>\<^verbatim>\<open>__main__.py\<close>: the aggregate commands\<close>

text \<open>
  \<^verbatim>\<open>
  def aggregate_smb(in_dir = ..., out_dir = ...):
      a = Aggregator()
      a(str(in_dir), str(out_file), SourceDatasets.smb.value)
  \<close>
  The parameters are \<^verbatim>\<open>in_dir\<close> and \<^verbatim>\<open>out_dir\<close>; \<^verbatim>\<open>a\<close> is the only other
  local name. Every other name is looked up among the globals when its statement runs,
  in the order Python evaluates the call: the callee, then the arguments from left to
  right.
\<close>

definition aggregate_smb :: "string list \<Rightarrow> stage_class \<Rightarrow> string \<Rightarrow> string \<Rightarrow> unit run" where
  "aggregate_smb G A in_dir out_dir =
     and_then (load_global G ''Aggregator'') (\<lambda>_.
     and_then (new_stage ''Aggregator'' A []) (\<lambda>_.
     and_then (load_global G ''str'') (\<lambda>_.
     and_then (load_global G ''str'') (\<lambda>_.
     and_then (load_global G ''out_file'') (\<lambda>out_file.
     and_then (load_global G ''SourceDatasets'') (\<lambda>_.
       call_stage ''Aggregator'' A
         [PStr in_dir, out_file, PStr (SourceDatasets_value smb)] []))))))"







text \<open>
  The commands are typer commands: before the function is called, typer converts every
  option value, given or default, by the option's type. A \<^verbatim>\<open>pathlib.Path\<close> option
  is checked as \<^verbatim>\<open>click.Path.convert\<close> does, with the flags of its
  \<^verbatim>\<open>typer.Option\<close> (typer's defaults: \<^verbatim>\<open>exists=False\<close>, \<^verbatim>\<open>file_okay=True\<close>,
  \<^verbatim>\<open>dir_okay=True\<close>, \<^verbatim>\<open>readable=True\<close>):
  \<^verbatim>\<open>
  try: st = os.stat(rv)
  except OSError:
      if not self.exists: return rv
      self.fail("... does not exist.")
  if not self.file_okay and stat.S_ISREG(st.st_mode): self.fail("... is a file.")
  if not self.dir_okay and stat.S_ISDIR(st.st_mode): self.fail("... is a directory.")
  if self.readable and not os.access(rv, os.R_OK): self.fail("... is not readable.")
  return rv
  \<close>
  A failed check is a \<^verbatim>\<open>BadParameter\<close> usage error: the command function is not
  called.
\<close>

record path_checks =
  must_exist :: bool
  file_okay :: bool
  dir_okay :: bool
  must_be_readable :: bool

definition plain_path_option :: path_checks where
  "plain_path_option =
     \<lparr>must_exist = False, file_okay = True, dir_okay = True, must_be_readable = True\<rparr>"


definition click_path_convert :: "filesystem \<Rightarrow> path_checks \<Rightarrow> string \<Rightarrow> py_error + string" where
  "click_path_convert fs ck rv = (case fs rv of
       None \<Rightarrow>
         if \<not> must_exist ck then Inr rv else Inl (BadParameter (rv @ '' does not exist.''))
     | Some (File r txt) \<Rightarrow>
         if \<not> file_okay ck then Inl (BadParameter (rv @ '' is a file.''))
         else if must_be_readable ck \<and> \<not> r then Inl (BadParameter (rv @ '' is not readable.''))
         else Inr rv
     | Some (Dir r names) \<Rightarrow>
         if \<not> dir_okay ck then Inl (BadParameter (rv @ '' is a directory.''))
         else if must_be_readable ck \<and> \<not> r then Inl (BadParameter (rv @ '' is not readable.''))
         else Inr rv)"

definition aggregate_smb_command ::
  "string list \<Rightarrow> stage_class \<Rightarrow> filesystem \<Rightarrow> string \<Rightarrow> string \<Rightarrow> unit run" where
  "aggregate_smb_command G A fs in_dir out_dir =
     and_then (attempt (click_path_convert fs plain_path_option in_dir)) (\<lambda>in_dir.
     and_then (attempt (click_path_convert fs plain_path_option out_dir)) (\<lambda>out_dir.
       aggregate_smb G A in_dir out_dir))"




section \<open>\<^verbatim>\<open>__main__.py\<close>: the config command\<close>

text \<open>
  \<^verbatim>\<open>
  def config(show = False, chunksize = 16, num_workers = 1, storage = ..., ydisk_token = ""):
      if show:
          print("Current configuration")
          for key, value in app_config.items():
              print(key, value)
          return
      app_config["token"] = ydisk_token
      app_config["num_workers"] = extractor_num_workers
      app_config["chunksize"] = extractor_chunksize
      app_config["storage"] = storage
      with open(app_config_path, "w") as f:
          json.dump(app_config, f)
      print("Configuration updated")
  \<close>
  The command changes two things: the dictionary bound to \<^verbatim>\<open>app_config\<close> and the
  files on disk. Both are the state it takes and returns. An assignment evaluates its
  right-hand side first. \<^verbatim>\<open>json.dumps\<close> is a parameter; opening a path for writing
  fails on a directory and creates or replaces a file otherwise.
\<close>

record module_state =
  app_config :: pyval
  disk :: filesystem

definition open_for_writing :: "filesystem \<Rightarrow> string \<Rightarrow> py_error + unit" where
  "open_for_writing fs p = (case fs p of
       Some (Dir r names) \<Rightarrow> Inl (IsADirectoryError p)
     | _ \<Rightarrow> Inr ())"

definition config ::
  "string list \<Rightarrow> (pyval \<Rightarrow> string) \<Rightarrow> string \<Rightarrow> module_state
     \<Rightarrow> bool \<Rightarrow> int \<Rightarrow> int \<Rightarrow> pyval \<Rightarrow> string \<Rightarrow> unit run \<times> module_state" where
  "config G json_dumps app_config_path st show chunksize num_workers storage ydisk_token =
     (if show then
        (case dict_items (app_config st) of
           Inl e \<Rightarrow> (([Print ''Current configuration''], Inl e), st)
         | Inr items \<Rightarrow>
             ((Print ''Current configuration'' # map (\<lambda>(key, v). PrintArgs [PStr key, v]) items,
               Inr ()), st))
      else
        (case dict_set (app_config st) ''token'' (PStr ydisk_token) of
           Inl e \<Rightarrow> (([], Inl e), st)
         | Inr c1 \<Rightarrow>
        (case load_global G ''extractor_num_workers'' of
           (ev, Inl e) \<Rightarrow> ((ev, Inl e), st\<lparr>app_config := c1\<rparr>)
         | (ev, Inr v2) \<Rightarrow>
        (case dict_set c1 ''num_workers'' v2 of
           Inl e \<Rightarrow> (([], Inl e), st\<lparr>app_config := c1\<rparr>)
         | Inr c2 \<Rightarrow>
        (case load_global G ''extractor_chunksize'' of
           (ev, Inl e) \<Rightarrow> ((ev, Inl e), st\<lparr>app_config := c2\<rparr>)
         | (ev, Inr v3) \<Rightarrow>
        (case dict_set c2 ''chunksize'' v3 of
           Inl e \<Rightarrow> (([], Inl e), st\<lparr>app_config := c2\<rparr>)
         | Inr c3 \<Rightarrow>
        (case dict_set c3 ''storage'' storage of
           Inl e \<Rightarrow> (([], Inl e), st\<lparr>app_config := c3\<rparr>)
         | Inr c4 \<Rightarrow>
        (case open_for_writing (disk st) app_config_path of
           Inl e \<Rightarrow> (([], Inl e), st\<lparr>app_config := c4\<rparr>)
         | Inr _ \<Rightarrow>
             (([OpenForWriting app_config_path, Print ''Configuration updated''], Inr ()),
              \<lparr>app_config = c4,
               disk = (disk st)(app_config_path \<mapsto> File True (json_dumps c4))\<rparr>)))))))))"


section \<open>The aggregation fold (from the spec)\<close>

text \<open>
  Modelled from the spec: the aggregation stage (the class \<^verbatim>\<open>Aggregator\<close> of
  \<^verbatim>\<open>ru_smb_companies/stages/aggregate.py\<close>) is not among the sources. The definitions
  follow section 4.5 of the spec, steps 1 and 2: the rows of all chunk files are
  streamed in order; each row is looked up by its identifier in an accumulating map from
  identifier to row; a new identifier is inserted; for a known identifier the stored row
  is replaced only if the new row's snapshot date is strictly more recent. The type of
  dates is any linear order.
\<close>

record 'd row =
  ident :: string
  snapshot :: 'd
  payload :: "string list"

definition upsert :: "(string \<rightharpoonup> ('d::linorder) row) \<Rightarrow> 'd row \<Rightarrow> (string \<rightharpoonup> 'd row)" where
  "upsert m r = (case m (ident r) of
       None \<Rightarrow> m(ident r \<mapsto> r)
     | Some old \<Rightarrow> if snapshot old < snapshot r then m(ident r \<mapsto> r) else m)"

fun fold_rows :: "(string \<rightharpoonup> ('d::linorder) row) \<Rightarrow> 'd row list \<Rightarrow> (string \<rightharpoonup> 'd row)" where
  "fold_rows m [] = m"
| "fold_rows m (r # rs) = fold_rows (upsert m r) rs"

definition aggregate_rows :: "('d::linorder) row list \<Rightarrow> (string \<rightharpoonup> 'd row)" where
  "aggregate_rows rs = fold_rows Map.empty rs"

text \<open>What one identifier sees of the fold: the row stored for it so far, merged with
  the next row that carries it.\<close>

definition keep_latest :: "('d::linorder) row option \<Rightarrow> 'd row \<Rightarrow> 'd row option" where
  "keep_latest cur r = (case cur of
       None \<Rightarrow> Some r
     | Some old \<Rightarrow> if snapshot old < snapshot r then Some r else Some old)"

section \<open>The activity-code filter (from the spec)\<close>

text \<open>
  Modelled from the spec: the activity-code filter (the spec's \<^verbatim>\<open>CodeTree\<close>) belongs
  to the extraction stage, \<^verbatim>\<open>ru_smb_companies/stages/extract.py\<close>, which is not among
  the sources; \<^verbatim>\<open>__main__.py\<close> only passes the list of the \<^verbatim>\<open>--ac\<close> options on.
  The definitions follow sections 3 and 4.1 of the spec. An activity code is a dotted
  code with an optional group letter. A dotted code is one or more segments of digits
  joined by dots (a code's ancestors are its truncations, so one segment alone is a
  code). The tree is built from the raw filter strings: the group letters and the
  dotted codes among them are stored, each kind apart. \<open>matches\<close> is true when no
  filter is configured; otherwise when the record's group letter is a stored group
  filter, or its dotted code is a stored code filter, or its dotted code truncated to a
  stored code filter's segment count is that filter. A malformed code matches no code
  filter.
\<close>

record activity_code =
  group_letter :: "char option"
  dotted :: string

record code_tree =
  n_filters :: nat
  group_filters :: "string list"
  code_filters :: "string list"

definition is_letter :: "char \<Rightarrow> bool" where
  "is_letter c =
     (let n = (of_char c :: nat) in (65 \<le> n \<and> n \<le> 90) \<or> (97 \<le> n \<and> n \<le> 122))"

definition is_group_letter :: "string \<Rightarrow> bool" where
  "is_group_letter s = (case s of [c] \<Rightarrow> is_letter c | _ \<Rightarrow> False)"

definition segments :: "string \<Rightarrow> string list" where
  "segments s = split_on (CHR ''.'') s"

definition is_dotted_code :: "string \<Rightarrow> bool" where
  "is_dotted_code s = list_all (\<lambda>seg. seg \<noteq> [] \<and> list_all is_digit seg) (segments s)"

definition segment_count :: "string \<Rightarrow> nat" where
  "segment_count s = length (segments s)"

definition truncate_code :: "string \<Rightarrow> nat \<Rightarrow> string" where
  "truncate_code c n = join_with ''.'' (take n (segments c))"

definition build_code_tree :: "string list \<Rightarrow> code_tree" where
  "build_code_tree filters =
     \<lparr>n_filters = length filters,
      group_filters = filter is_group_letter filters,
      code_filters = filter is_dotted_code filters\<rparr>"

definition matches :: "code_tree \<Rightarrow> activity_code \<Rightarrow> bool" where
  "matches t c =
     (if n_filters t = 0 then True
      else (case group_letter c of
              None \<Rightarrow> False
            | Some g \<Rightarrow> List.member (group_filters t) [g])
         \<or> (is_dotted_code (dotted c)
            \<and> (List.member (code_filters t) (dotted c)
               \<or> list_ex (\<lambda>f. truncate_code (dotted c) (segment_count f) = f) (code_filters t))))"

section \<open>Example inputs\<close>

text \<open>A directory \<^verbatim>\<open>in\<close> with one chunk file of two records, the first with a date
  that is no date, and a file that is not a chunk file; a schema of an identifier and a
  date.\<close>

definition example_fs :: filesystem where
  "example_fs = (\<lambda>p.
     if p = ''in'' then Some (Dir True [''data-1.csv'', ''notes.txt''])
     else if p = ''in/data-1.csv'' then
       Some (File True (''id,date'' @ [CHR 0x0A] @ ''1,abc'' @ [CHR 0x0A]
                        @ ''2,31.12.2021'' @ [CHR 0x0A]))
     else if p = ''in/notes.txt'' then Some (File True ''remarks'')
     else None)"

definition example_schema :: schema where
  "example_schema = [(''id'', StringType), (''date'', DateType)]"

text \<open>A data frame with a missing date and an empty identifier.\<close>

definition example_frame :: dataframe where
  "example_frame =
     \<lparr>columns = example_schema, rows = [[Text ''1'', Null], [Text [], Date 2021 12 31]]\<rparr>"

text \<open>A stage class whose constructor and call only print and return.\<close>

definition example_stage :: stage_class where
  "example_stage =
     \<lparr>construct = (\<lambda>args. ([Print ''Starting Spark''], Inr ())),
      invoke = (\<lambda>args kwargs. ([Print ''called''], Inr ()))\<rparr>"

text \<open>A directory the process may not read, and a stage class whose constructor
  raises after its first line of output.\<close>

definition locked_fs :: filesystem where
  "locked_fs = (\<lambda>p. if p = ''locked'' then Some (Dir False []) else None)"

definition failing_stage :: stage_class where
  "failing_stage =
     \<lparr>construct = (\<lambda>args. ([Print ''Starting Spark''], Inl (RuntimeError ''no Java runtime''))),
      invoke = (\<lambda>args kwargs. ([Print ''called''], Inr ()))\<rparr>"

text \<open>Rows for the spec's two examples: one identifier in the snapshots of 2021 and
  2022, and two rows of one identifier and one date with different values. Dates are
  written as numbers, year then month then day.\<close>

definition row_2021 :: "nat row" where
  "row_2021 = \<lparr>ident = ''7701'', snapshot = 20210101, payload = [''old name'']\<rparr>"

definition row_2022 :: "nat row" where
  "row_2022 = \<lparr>ident = ''7701'', snapshot = 20220101, payload = [''new name'']\<rparr>"

definition row_tie :: "nat row" where
  "row_tie = \<lparr>ident = ''7701'', snapshot = 20220101, payload = [''other name'']\<rparr>"

text \<open>A code of the third level in group \<^verbatim>\<open>A\<close>.\<close>

definition example_code :: activity_code where
  "example_code = \<lparr>group_letter = Some (CHR ''A''), dotted = ''01.10.01''\<rparr>"

section \<open>Proofs: paths and glob patterns\<close>

lemma rfind_from_cases:
  "rfind_from c xs i f = f \<or> (\<exists>k<length xs. rfind_from c xs i f = int (i + k) \<and> xs ! k = c)"
proof (induction xs arbitrary: i f)
  case Nil
  then show ?case by simp
next
  case (Cons x xs)
  from Cons.IH [of "Suc i" "if x = c then int i else f"]
  show ?case
  proof
    assume a: "rfind_from c xs (Suc i) (if x = c then int i else f) = (if x = c then int i else f)"
    show ?thesis
    proof (cases "x = c")
      case True
      with a have "rfind_from c (x # xs) i f = int (i + 0) \<and> (x # xs) ! 0 = c" by simp
      then show ?thesis by blast
    next
      case False
      with a show ?thesis by simp
    qed
  next
    assume "\<exists>k<length xs. rfind_from c xs (Suc i) (if x = c then int i else f) = int (Suc i + k) \<and> xs ! k = c"
    then obtain k where k: "k < length xs"
      "rfind_from c xs (Suc i) (if x = c then int i else f) = int (Suc i + k)" "xs ! k = c" by blast
    then have "Suc k < length (x # xs) \<and> rfind_from c (x # xs) i f = int (i + Suc k) \<and> (x # xs) ! Suc k = c"
      by simp
    then show ?thesis by blast
  qed
qed

lemma name_suffix_shape: "name_suffix n = [] \<or> (\<exists>r. name_suffix n = CHR ''.'' # r)"
proof (cases "0 < rfind (CHR ''.'') n \<and> rfind (CHR ''.'') n < int (length n) - 1")
  case False
  then show ?thesis by (auto simp: name_suffix_def Let_def)
next
  case True
  from rfind_from_cases [of "CHR ''.''" n 0 "- 1"] True
  obtain k where k: "k < length n" "rfind (CHR ''.'') n = int k" "n ! k = CHR ''.''"
    by (auto simp: rfind_def)
  have "drop k n = n ! k # drop (Suc k) n" using k(1) by (simp add: Cons_nth_drop_Suc)
  with k True show ?thesis by (simp add: name_suffix_def Let_def)
qed

lemma path_suffix_never_csv: "path_suffix p \<noteq> ''csv''"
  using name_suffix_shape [of "path_name p"] by (auto simp: path_suffix_def)

lemma glob_star: "glob_match (CHR ''*'' # ps) s = (\<exists>a b. s = a @ b \<and> glob_match ps b)"
proof (induction s)
  case Nil
  then show ?case by simp
next
  case (Cons c cs)
  have "(\<exists>a b. c # cs = a @ b \<and> glob_match ps b)
        = (glob_match ps (c # cs) \<or> (\<exists>a b. cs = a @ b \<and> glob_match ps b))"
    by (auto simp: Cons_eq_append_conv)
  with Cons show ?case by simp
qed

lemma glob_char:
  "p \<noteq> CHR ''*'' \<Longrightarrow> p \<noteq> CHR ''?'' \<Longrightarrow> glob_match (p # ps) s = (\<exists>t. s = p # t \<and> glob_match ps t)"
  by (cases s) auto

lemma glob_empty: "glob_match [] s = (s = [])"
  by (cases s) auto

lemma glob_data_csv: "glob_match ''data-*.csv'' n = (\<exists>m. n = ''data-'' @ m @ ''.csv'')"
  by (auto simp: glob_char glob_star glob_empty)

lemma path_glob_data_csv:
  "f \<in> set (path_glob fs p ''data-*.csv'') \<Longrightarrow> \<exists>m. f = path_join p (''data-'' @ m @ ''.csv'')"
  unfolding path_glob_def
  by (auto simp add: glob_data_csv simp del: glob_match.simps split: option.splits node.splits if_splits)

lemma read_events:
  "SparkReadCsv opts files \<in> set (fst (SparkStage_read S fs p sch)) \<Longrightarrow>
     is_dir fs p \<and> files \<noteq> [] \<and> files = path_glob fs p ''data-*.csv''"
  by (auto simp: SparkStage_read_def Let_def path_suffix_never_csv split: if_splits sum.splits)

text \<open>
  Claim C7. For an input path that exists and is not a directory, \<^verbatim>\<open>_read\<close> prints
  that the path holds no readable CSV file and returns \<^verbatim>\<open>None\<close>; nothing is read.
  The reason is the comparison \<^verbatim>\<open>path.suffix == "csv"\<close>: a pathlib suffix is empty
  or starts with a dot, so it is never \<^verbatim>\<open>csv\<close>. Whenever \<^verbatim>\<open>_read\<close> hands files
  to Spark, the input path is a directory and the files are its entries named
  \<^verbatim>\<open>data-*.csv\<close>, at least one.
\<close>

theorem read_accepts_directories_only:
  "path_suffix p \<noteq> ''csv'' \<and>
   (path_exists fs p \<and> \<not> is_dir fs p \<longrightarrow>
      SparkStage_read S fs p sch =
        ([Print ''Input path does not contain readable CSV file(s)''], Inr None)) \<and>
   (\<forall>opts files. SparkReadCsv opts files \<in> set (fst (SparkStage_read S fs p sch)) \<longrightarrow>
      is_dir fs p \<and> files \<noteq> [] \<and> files = path_glob fs p ''data-*.csv'' \<and>
      (\<forall>f \<in> set files. \<exists>m. f = path_join p (''data-'' @ m @ ''.csv'')))"
proof (intro conjI allI impI)
  show "path_suffix p \<noteq> ''csv''" by (rule path_suffix_never_csv)
next
  assume "path_exists fs p \<and> \<not> is_dir fs p"
  then show "SparkStage_read S fs p sch =
        ([Print ''Input path does not contain readable CSV file(s)''], Inr None)"
    by (simp add: SparkStage_read_def path_suffix_never_csv)
next
  fix opts files
  assume a: "SparkReadCsv opts files \<in> set (fst (SparkStage_read S fs p sch))"
  from read_events [OF a] show "is_dir fs p" "files \<noteq> []" "files = path_glob fs p ''data-*.csv''"
    by blast+
  from read_events [OF a] show "\<forall>f \<in> set files. \<exists>m. f = path_join p (''data-'' @ m @ ''.csv'')"
    using path_glob_data_csv by blast
qed

text \<open>The chunk file itself as input path is not read; its directory is.\<close>

theorem read_accepts_directories_only_witness:
  "path_exists example_fs ''in/data-1.csv'' \<and> \<not> is_dir example_fs ''in/data-1.csv'' \<and>
   path_suffix ''in/data-1.csv'' = ''.csv'' \<and>
   SparkStage_read plain_session example_fs ''in/data-1.csv'' example_schema =
     ([Print ''Input path does not contain readable CSV file(s)''], Inr None) \<and>
   SparkReadCsv read_options [''in/data-1.csv'']
     \<in> set (fst (SparkStage_read plain_session example_fs ''in'' example_schema)) \<and>
   is_dir example_fs ''in'' \<and>
   path_glob example_fs ''in'' ''data-*.csv'' = [''in/data-1.csv'']"
proof -
  have n: "path_suffix ''in/data-1.csv'' = ''.csv''"
    by code_simp
  have e: "path_exists example_fs ''in/data-1.csv'' \<and> \<not> is_dir example_fs ''in/data-1.csv''"
    by (simp add: path_exists_def is_dir_def example_fs_def)
  have r: "SparkReadCsv read_options [''in/data-1.csv'']
     \<in> set (fst (SparkStage_read plain_session example_fs ''in'' example_schema))"
    by code_simp
  from read_accepts_directories_only
      [of "''in/data-1.csv''" example_fs plain_session example_schema] e
  have 1: "SparkStage_read plain_session example_fs ''in/data-1.csv'' example_schema =
     ([Print ''Input path does not contain readable CSV file(s)''], Inr None)"
    by blast
  from read_accepts_directories_only [of "''in''" example_fs plain_session example_schema] r
  have 2: "is_dir example_fs ''in'' \<and> [''in/data-1.csv''] = path_glob example_fs ''in'' ''data-*.csv''"
    by blast
  from n e r 1 2 show ?thesis by simp
qed

section \<open>Proofs: the CSV writer\<close>

lemma null_rendered_NA: "render_cell S write_options Null = ''NA''"
  by (simp add: render_cell_def write_options_def option_value_def)

lemma empty_rendered_quotes: "render_cell S write_options (Text []) = [CHR 0x22, CHR 0x22]"
  by (simp add: render_cell_def write_options_def option_value_def)

lemma header_written: "map to_upper (option_value write_options ''header'' ''false'') = ''TRUE''"
  by code_simp

lemma write_result:
  "SparkStage_write S out_dir part (Some df) out_file = (ev, Inr ()) \<Longrightarrow>
     ev = [SparkWriteCsv write_options out_dir, MkdirParentsOf out_file,
           Move (path_join out_dir part) out_file (csv_lines S write_options df)]"
  by (auto simp: SparkStage_write_def spark_write_csv_def Let_def split: if_splits option.splits)

text \<open>
  Claim C6. \<^verbatim>\<open>_write\<close> sets \<^verbatim>\<open>nullValue="NA"\<close>: the writer prints every null
  cell as the two letters \<^verbatim>\<open>NA\<close>, which is not the empty string and not what it
  prints for a string that is present and empty. A write that returns has moved one
  file to the output path: the header line and one line per row, each the row's printed
  cells joined by commas; in it every null cell of every row stands as \<^verbatim>\<open>NA\<close>.
\<close>

theorem missing_values_written_as_NA:
  "render_cell S write_options Null = ''NA'' \<and>
   render_cell S write_options Null \<noteq> [] \<and>
   render_cell S write_options Null \<noteq> render_cell S write_options (Text []) \<and>
   (\<forall>ev. SparkStage_write S out_dir part (Some df) out_file = (ev, Inr ()) \<longrightarrow>
      ev = [SparkWriteCsv write_options out_dir, MkdirParentsOf out_file,
            Move (path_join out_dir part) out_file (csv_lines S write_options df)]) \<and>
   csv_lines S write_options df =
     csv_line S write_options (map (\<lambda>(n, ty). Text n) (columns df))
       # map (\<lambda>r. join_with '','' (csv_fields S write_options r)) (rows df) \<and>
   (\<forall>r \<in> set (rows df). \<forall>i < length r. r ! i = Null \<longrightarrow>
      csv_fields S write_options r ! i = ''NA'')"
proof (intro conjI allI impI ballI)
  show "render_cell S write_options Null = ''NA''" by (rule null_rendered_NA)
  show "render_cell S write_options Null \<noteq> []" by (simp add: null_rendered_NA)
  show "render_cell S write_options Null \<noteq> render_cell S write_options (Text [])"
    by (simp add: null_rendered_NA empty_rendered_quotes)
next
  fix ev
  assume "SparkStage_write S out_dir part (Some df) out_file = (ev, Inr ())"
  then show "ev = [SparkWriteCsv write_options out_dir, MkdirParentsOf out_file,
            Move (path_join out_dir part) out_file (csv_lines S write_options df)]"
    by (rule write_result)
next
  show "csv_lines S write_options df =
     csv_line S write_options (map (\<lambda>(n, ty). Text n) (columns df))
       # map (\<lambda>r. join_with '','' (csv_fields S write_options r)) (rows df)"
    by (simp add: csv_lines_def header_written csv_line_def)
next
  fix r i
  assume "i < length r" "r ! i = Null"
  then show "csv_fields S write_options r ! i = ''NA''"
    by (simp add: csv_fields_def null_rendered_NA)
qed

text \<open>A frame with a null date and an empty identifier, written.\<close>

theorem missing_values_written_as_NA_witness:
  "SparkStage_write plain_session ''tmp'' ''part-0.csv'' (Some example_frame) ''out/agg.csv'' =
     ([SparkWriteCsv write_options ''tmp'', MkdirParentsOf ''out/agg.csv'',
       Move ''tmp/part-0.csv'' ''out/agg.csv''
         [''id,date'', ''1,NA'', [CHR 0x22, CHR 0x22] @ '',2021-12-31'']], Inr ()) \<and>
   [Text ''1'', Null] \<in> set (rows example_frame) \<and>
   1 < length [Text ''1'', Null] \<and> [Text ''1'', Null] ! 1 = Null \<and>
   csv_fields plain_session write_options [Text ''1'', Null] ! 1 = ''NA''"
proof -
  have w: "SparkStage_write plain_session ''tmp'' ''part-0.csv'' (Some example_frame) ''out/agg.csv'' =
     ([SparkWriteCsv write_options ''tmp'', MkdirParentsOf ''out/agg.csv'',
       Move ''tmp/part-0.csv'' ''out/agg.csv''
         [''id,date'', ''1,NA'', [CHR 0x22, CHR 0x22] @ '',2021-12-31'']], Inr ())"
    by code_simp
  have m: "[Text ''1'', Null] \<in> set (rows example_frame)"
    by (simp add: example_frame_def)
  from missing_values_written_as_NA [of plain_session "''tmp''" "''part-0.csv''" example_frame "''out/agg.csv''"] m
  have "csv_fields plain_session write_options [Text ''1'', Null] ! 1 = ''NA''"
    by force
  with w m show ?thesis by simp
qed

section \<open>Proofs: the CSV reader\<close>

lemma read_mode_permissive: "read_mode read_options = PERMISSIVE"
  by (simp add: read_mode_def read_options_def)

lemma read_date_format: "option_value read_options ''dateFormat'' d = ''dd.MM.yyyy''"
  by (simp add: read_options_def option_value_def)

lemma read_null_value: "option_value read_options ''nullValue'' [] = []"
  by (simp add: read_options_def option_value_def)

lemma read_records_permissive:
  "read_records S read_options sch recs =
     Inr (map (\<lambda>ts. permissive_row (convert_fields S read_options sch ts)) recs)"
  by (induction recs) (simp_all add: read_mode_permissive Let_def)

lemma convert_fields_nth:
  "i < length sch \<Longrightarrow> i < length ts \<Longrightarrow>
     convert_fields S opts sch ts ! i = convert_field S opts (snd (sch ! i)) (ts ! i)"
proof (induction S opts sch ts arbitrary: i rule: convert_fields.induct)
  case (3 S opts n ty sch t ts)
  then show ?case by (cases i) simp_all
qed simp_all

lemma convert_fields_length: "length (convert_fields S opts sch ts) = length sch"
  by (induction S opts sch ts rule: convert_fields.induct) simp_all

text \<open>
  Claim C5, as the code has it. \<^verbatim>\<open>_read\<close> passes \<^verbatim>\<open>dateFormat="dd.MM.yyyy"\<close>,
  so every date field is parsed by that pattern. It passes no \<^verbatim>\<open>mode\<close>, so the
  reader runs in its default mode \<^verbatim>\<open>PERMISSIVE\<close>: no record fails and none is
  dropped. A record whose date field is not empty and cannot be parsed by the pattern is
  emitted with a null in the date column, and \<^verbatim>\<open>_write\<close> prints that null as
  \<^verbatim>\<open>NA\<close>.
\<close>

theorem unparsable_date_read_as_null:
  "option_value read_options ''dateFormat'' dflt = ''dd.MM.yyyy'' \<and>
   map_of read_options ''mode'' = None \<and>
   read_mode read_options = PERMISSIVE \<and>
   convert_field S read_options DateType t =
     (if t = [] then Some Null
      else (case parse_date S ''dd.MM.yyyy'' t of
              None \<Rightarrow> None
            | Some (y, m, d) \<Rightarrow> Some (Date y m d))) \<and>
   read_records S read_options sch recs =
     Inr (map (\<lambda>ts. permissive_row (convert_fields S read_options sch ts)) recs) \<and>
   (i < length sch \<and> i < length ts \<and> snd (sch ! i) = DateType \<and> ts ! i \<noteq> [] \<and>
    parse_date S ''dd.MM.yyyy'' (ts ! i) = None \<longrightarrow>
      permissive_row (convert_fields S read_options sch ts) ! i = Null \<and>
      render_cell S write_options (permissive_row (convert_fields S read_options sch ts) ! i) = ''NA'')"
proof (intro conjI impI)
  show "option_value read_options ''dateFormat'' dflt = ''dd.MM.yyyy''" by (rule read_date_format)
  show "map_of read_options ''mode'' = None" by (simp add: read_options_def)
  show "read_mode read_options = PERMISSIVE" by (rule read_mode_permissive)
  show "convert_field S read_options DateType t =
     (if t = [] then Some Null
      else (case parse_date S ''dd.MM.yyyy'' t of
              None \<Rightarrow> None
            | Some (y, m, d) \<Rightarrow> Some (Date y m d)))"
    by (simp add: convert_field_def read_date_format read_null_value)
  show "read_records S read_options sch recs =
     Inr (map (\<lambda>ts. permissive_row (convert_fields S read_options sch ts)) recs)"
    by (rule read_records_permissive)
next
  assume a: "i < length sch \<and> i < length ts \<and> snd (sch ! i) = DateType \<and> ts ! i \<noteq> [] \<and>
    parse_date S ''dd.MM.yyyy'' (ts ! i) = None"
  then have "convert_fields S read_options sch ts ! i = None"
    by (simp add: convert_fields_nth convert_field_def read_date_format read_null_value)
  with a show n: "permissive_row (convert_fields S read_options sch ts) ! i = Null"
    by (simp add: permissive_row_def convert_fields_length)
  then show "render_cell S write_options (permissive_row (convert_fields S read_options sch ts) ! i) = ''NA''"
    by (simp add: null_rendered_NA)
qed

text \<open>
  The claim as stated, that a record with an unparsable date fails and is not emitted
  with a null date, does not hold: the record \<^verbatim>\<open>1,abc\<close> of the example chunk file
  is emitted, with a null date.
\<close>

theorem unparsable_date_counterexample:
  "strict_parse_date ''dd.MM.yyyy'' ''abc'' = None \<and>
   SparkStage_read plain_session example_fs ''in'' example_schema =
     ([SparkReadCsv read_options [''in/data-1.csv''], Print ''Source CSV contains 2 rows''],
      Inr (Some \<lparr>columns = example_schema,
                 rows = [[Text ''1'', Null], [Text ''2'', Date 2021 12 31]]\<rparr>))"
  by code_simp

theorem unparsable_date_read_as_null_witness:
  "(1::nat) < length example_schema \<and> (1::nat) < length [''1'', ''abc''] \<and>
   snd (example_schema ! 1) = DateType \<and> [''1'', ''abc''] ! 1 \<noteq> [] \<and>
   parse_date plain_session ''dd.MM.yyyy'' ([''1'', ''abc''] ! 1) = None \<and>
   permissive_row (convert_fields plain_session read_options example_schema [''1'', ''abc'']) ! 1 = Null"
proof -
  have h: "(1::nat) < length example_schema \<and> (1::nat) < length [''1'', ''abc''] \<and>
   snd (example_schema ! 1) = DateType \<and> [''1'', ''abc''] ! 1 \<noteq> [] \<and>
   parse_date plain_session ''dd.MM.yyyy'' ([''1'', ''abc''] ! 1) = None"
    by code_simp
  from unparsable_date_read_as_null
      [where S = plain_session and i = 1 and sch = example_schema and ts = "[''1'', ''abc'']"] h
  show ?thesis by blast
qed


section \<open>Proofs: runs and names\<close>

lemma and_then_finish: "and_then (finish x) f = f x"
  by (simp add: and_then_def finish_def split: prod.splits)

lemma and_then_raise: "and_then (raise e) f = raise e"
  by (simp add: and_then_def raise_def)

lemma and_then_attempt_Inr: "and_then (attempt (Inr x)) f = f x"
  by (simp add: and_then_def attempt_def split: prod.splits)

lemma and_then_attempt_Inl: "and_then (attempt (Inl e)) f = raise e"
  by (simp add: and_then_def attempt_def raise_def)

lemma and_then_emit: "and_then (emit ev) f = (ev # fst (f ()), snd (f ()))"
  by (simp add: and_then_def emit_def split: prod.splits)

lemma and_then_assoc: "and_then (and_then m f) g = and_then m (\<lambda>x. and_then (f x) g)"
  by (simp add: and_then_def split: prod.splits sum.splits)

lemma unbound_out_file:
  "load_global (module_globals opened) ''out_file'' = raise (NameError ''out_file'')"
  by (simp add: load_global_def module_globals_def builtin_names_def)



lemma bound_globals:
  "load_global (module_globals opened) ''Aggregator'' = finish (PObj ''Aggregator'')"
  "load_global (module_globals opened) ''Extractor'' = finish (PObj ''Extractor'')"
  "load_global (module_globals opened) ''SourceDatasets'' = finish (PObj ''SourceDatasets'')"
  "load_global (module_globals opened) ''app_config'' = finish (PObj ''app_config'')"
  "load_global (module_globals opened) ''str'' = finish (PObj ''str'')"
  "load_global (module_globals opened) ''dict'' = finish (PObj ''dict'')"
  "load_global (module_globals opened) ''RuntimeError'' = finish (PObj ''RuntimeError'')"
  "load_global (module_globals opened) ''get_default_path'' = finish (PObj ''get_default_path'')"
  "load_global (module_globals opened) ''StageNames'' = finish (PObj ''StageNames'')"
  by (simp_all add: load_global_def module_globals_def builtin_names_def)

lemma aggregate_smb_run:
  "aggregate_smb (module_globals opened) A in_dir out_dir =
     (New ''Aggregator'' [] # fst (construct A []),
      case snd (construct A []) of Inl e \<Rightarrow> Inl e | Inr u \<Rightarrow> Inl (NameError ''out_file''))"
  by (simp add: aggregate_smb_def bound_globals unbound_out_file and_then_finish and_then_raise
      new_stage_def and_then_assoc and_then_emit)
    (simp add: and_then_def raise_def split: prod.splits sum.splits)


section \<open>Proofs: the aggregate commands\<close>

lemma click_path_result: "click_path_convert fs ck rv = Inr v \<Longrightarrow> v = rv"
  by (auto simp: click_path_convert_def split: option.splits node.splits if_splits)

lemma click_path_cases:
  "(\<exists>msg. click_path_convert fs ck rv = Inl (BadParameter msg)) \<or> click_path_convert fs ck rv = Inr rv"
  by (auto simp: click_path_convert_def split: option.splits node.splits)

lemma aggregate_smb_command_run:
  "(\<exists>msg. aggregate_smb_command G A fs in_dir out_dir = ([], Inl (BadParameter msg))) \<or>
   aggregate_smb_command G A fs in_dir out_dir = aggregate_smb G A in_dir out_dir"
  using click_path_cases [of fs plain_path_option in_dir]
    click_path_cases [of fs plain_path_option out_dir]
  by (auto simp: aggregate_smb_command_def and_then_attempt_Inl and_then_attempt_Inr raise_def)

text \<open>
  Claim C9, as the code has it. The function \<^verbatim>\<open>aggregate_smb\<close> constructs the
  aggregator and then evaluates the arguments of the call; the second argument is the
  name \<^verbatim>\<open>out_file\<close>, which is no parameter (the parameter is \<^verbatim>\<open>out_dir\<close>), no
  global of the module and no builtin. So the run is the construction, with whatever
  the constructor prints, followed by \<^verbatim>\<open>NameError\<close>: when the constructor returns,
  the function raises the \<^verbatim>\<open>NameError\<close>; when the constructor raises, the function
  ends with the constructor's exception. For option values that pass typer's checks the
  command is the function; otherwise it ends with \<^verbatim>\<open>BadParameter\<close>. No invocation
  returns normally, and none calls the aggregator (the trace holds no call event that
  the constructor did not make itself), so nothing is aggregated or written.
\<close>

theorem aggregate_smb_raises_name_error:
  "load_global (module_globals opened) ''out_file'' = raise (NameError ''out_file'') \<and>
   aggregate_smb (module_globals opened) A in_dir out_dir =
     (New ''Aggregator'' [] # fst (construct A []),
      case snd (construct A []) of Inl e \<Rightarrow> Inl e | Inr u \<Rightarrow> Inl (NameError ''out_file'')) \<and>
   (snd (construct A []) = Inr () \<longrightarrow>
      snd (aggregate_smb (module_globals opened) A in_dir out_dir) = Inl (NameError ''out_file'')) \<and>
   (click_path_convert fs plain_path_option in_dir = Inr in_dir \<and>
    click_path_convert fs plain_path_option out_dir = Inr out_dir \<longrightarrow>
      aggregate_smb_command (module_globals opened) A fs in_dir out_dir =
        aggregate_smb (module_globals opened) A in_dir out_dir) \<and>
   snd (aggregate_smb_command (module_globals opened) A fs in_dir out_dir) \<noteq> Inr () \<and>
   (\<forall>args kwargs.
      Call ''Aggregator'' args kwargs
        \<in> set (fst (aggregate_smb_command (module_globals opened) A fs in_dir out_dir)) \<longrightarrow>
      Call ''Aggregator'' args kwargs \<in> set (fst (construct A [])))"
proof (intro conjI allI impI)
  show "load_global (module_globals opened) ''out_file'' = raise (NameError ''out_file'')"
    by (rule unbound_out_file)
  show "aggregate_smb (module_globals opened) A in_dir out_dir =
     (New ''Aggregator'' [] # fst (construct A []),
      case snd (construct A []) of Inl e \<Rightarrow> Inl e | Inr u \<Rightarrow> Inl (NameError ''out_file''))"
    by (rule aggregate_smb_run)
  show "snd (aggregate_smb_command (module_globals opened) A fs in_dir out_dir) \<noteq> Inr ()"
    using aggregate_smb_command_run [of "module_globals opened" A fs in_dir out_dir]
    by (auto simp: aggregate_smb_run split: sum.splits)
next
  assume "snd (construct A []) = Inr ()"
  then show "snd (aggregate_smb (module_globals opened) A in_dir out_dir) = Inl (NameError ''out_file'')"
    by (simp add: aggregate_smb_run)
next
  assume "click_path_convert fs plain_path_option in_dir = Inr in_dir \<and>
    click_path_convert fs plain_path_option out_dir = Inr out_dir"
  then show "aggregate_smb_command (module_globals opened) A fs in_dir out_dir =
        aggregate_smb (module_globals opened) A in_dir out_dir"
    by (simp add: aggregate_smb_command_def and_then_attempt_Inr)
next
  fix args kwargs
  assume "Call ''Aggregator'' args kwargs
        \<in> set (fst (aggregate_smb_command (module_globals opened) A fs in_dir out_dir))"
  then show "Call ''Aggregator'' args kwargs \<in> set (fst (construct A []))"
    using aggregate_smb_command_run [of "module_globals opened" A fs in_dir out_dir]
    by (auto simp: aggregate_smb_run)
qed

theorem aggregate_smb_raises_name_error_witness:
  "snd (construct example_stage []) = Inr () \<and>
   click_path_convert example_fs plain_path_option ''in'' = Inr ''in'' \<and>
   click_path_convert example_fs plain_path_option ''out'' = Inr ''out'' \<and>
   aggregate_smb_command (module_globals False) example_stage example_fs ''in'' ''out'' =
     ([New ''Aggregator'' [], Print ''Starting Spark''], Inl (NameError ''out_file''))"
proof -
  have h: "snd (construct example_stage []) = Inr ()"
    "click_path_convert example_fs plain_path_option ''in'' = Inr ''in''"
    "click_path_convert example_fs plain_path_option ''out'' = Inr ''out''"
    by (simp_all add: example_stage_def click_path_convert_def example_fs_def plain_path_option_def)
  from aggregate_smb_raises_name_error [of False example_stage "''in''" "''out''" example_fs] h
  have "aggregate_smb_command (module_globals False) example_stage example_fs ''in'' ''out'' =
     (New ''Aggregator'' [] # fst (construct example_stage []), Inl (NameError ''out_file''))"
    by simp
  with h show ?thesis by (simp add: example_stage_def)
qed

text \<open>
  The claim as stated, that every invocation raises \<^verbatim>\<open>NameError\<close> before any
  output, does not hold: an input directory that exists and is not readable ends the
  command with \<^verbatim>\<open>BadParameter\<close>, and a constructor that raises ends it with the
  constructor's exception, after the constructor's output.
\<close>

theorem aggregate_smb_other_errors_counterexample:
  "aggregate_smb_command (module_globals False) example_stage locked_fs ''locked'' ''out'' =
     ([], Inl (BadParameter ''locked is not readable.'')) \<and>
   aggregate_smb_command (module_globals False) failing_stage example_fs ''in'' ''out'' =
     ([New ''Aggregator'' [], Print ''Starting Spark''], Inl (RuntimeError ''no Java runtime''))"
  by code_simp







section \<open>Proofs: the configuration\<close>







lemma read_text_fails:
  "\<not> path_exists fs p \<or> \<not> is_readable fs p \<Longrightarrow> \<exists>e. read_text fs p = Inl e"
  by (auto simp: read_text_def path_exists_def is_readable_def split: option.splits node.splits)

lemma default_values:
  "dict_get default_config ''num_workers'' = Inr (PInt 1)"
  "dict_get default_config ''chunksize'' = Inr (PInt 16)"
  "dict_get default_config ''storage'' = Inr (PStr ''local'')"
  "dict_get default_config ''token'' = Inr (PStr [])"
  by (simp_all add: dict_get_def default_config_def)

lemma new_extractor_default:
  "new_extractor (module_globals opened) E default_config =
     new_stage ''Extractor'' E [PStr ''local'', PInt 1, PInt 16, PStr []]"
  by (simp add: new_extractor_def default_values bound_globals and_then_finish
      and_then_attempt_Inr)

lemma new_stage_then:
  "fst (and_then (new_stage cls C args) f) = New cls args # tl (fst (and_then (new_stage cls C args) f))"
  by (simp add: new_stage_def and_then_def emit_def split: prod.splits sum.splits)

lemma new_extractor_configured:
  "map_of kv ''storage'' \<noteq> Some (PStr ''ydisk'') \<Longrightarrow>
   new_extractor (module_globals opened) E (PDict kv) =
     new_stage ''Extractor'' E
       [case map_of kv ''storage'' of None \<Rightarrow> PNone | Some v \<Rightarrow> v,
        case map_of kv ''num_workers'' of None \<Rightarrow> PNone | Some v \<Rightarrow> v,
        case map_of kv ''chunksize'' of None \<Rightarrow> PNone | Some v \<Rightarrow> v,
        case map_of kv ''token'' of None \<Rightarrow> PNone | Some v \<Rightarrow> v]"
  by (auto simp add: new_extractor_def dict_get_def bound_globals and_then_finish
      and_then_attempt_Inr split: option.splits)

text \<open>
  Claim C8, as the code has it. The module first creates the configuration directory
  (line 52, outside the \<^verbatim>\<open>try\<close>): when that raises, the import ends with the
  exception and nothing is loaded. When it returns and the configuration file is absent
  or cannot be read, the loaded configuration is \<^verbatim>\<open>default_config\<close>: one worker,
  chunks of 16, local storage, an empty token. Each of the four extract commands then
  constructs the extractor with these values, \<^verbatim>\<open>num_workers = 1\<close> among them,
  before anything else. The worker count is configurable: with a configuration that
  holds \<^verbatim>\<open>num_workers = n\<close> (and does not ask for the storage \<^verbatim>\<open>ydisk\<close>, which
  needs a token), the extractor is constructed with \<open>n\<close>.
\<close>

theorem default_config_gives_one_worker:
  "(\<forall>fs'. mkdir_parents W fs app_dir = Inr fs' \<and>
      (\<not> path_exists fs' (path_join app_dir ''config.json'') \<or>
       \<not> is_readable fs' (path_join app_dir ''config.json'')) \<longrightarrow>
      load_app_config W json_loads fs app_dir =
        ([Print ''Failed to load config, default options are loaded''],
         Inr (default_config, fs'))) \<and>
   (\<forall>e. mkdir_parents W fs app_dir = Inl e \<longrightarrow>
      load_app_config W json_loads fs app_dir = ([], Inl e)) \<and>
   dict_get default_config ''num_workers'' = Inr (PInt 1) \<and>
   dict_get default_config ''chunksize'' = Inr (PInt 16) \<and>
   dict_get default_config ''storage'' = Inr (PStr ''local'') \<and>
   dict_get default_config ''token'' = Inr (PStr []) \<and>
   new_extractor (module_globals opened) E default_config =
     new_stage ''Extractor'' E [PStr ''local'', PInt 1, PInt 16, PStr []] \<and>
   hd (fst (extract_smb (module_globals opened) E default_config in_dir out_dir clear ac)) =
     New ''Extractor'' [PStr ''local'', PInt 1, PInt 16, PStr []] \<and>
   hd (fst (extract_revexp (module_globals opened) E default_config in_dir out_dir clear)) =
     New ''Extractor'' [PStr ''local'', PInt 1, PInt 16, PStr []] \<and>
   hd (fst (extract_empl (module_globals opened) E default_config in_dir out_dir clear)) =
     New ''Extractor'' [PStr ''local'', PInt 1, PInt 16, PStr []] \<and>
   hd (fst (extract_all (module_globals opened) E default_config in_dir out_dir clear ac)) =
     New ''Extractor'' [PStr ''local'', PInt 1, PInt 16, PStr []] \<and>
   (map_of kv ''num_workers'' = Some n \<and> map_of kv ''storage'' \<noteq> Some (PStr ''ydisk'') \<longrightarrow>
      (\<exists>s c t. hd (fst (extract_smb (module_globals opened) E (PDict kv) in_dir out_dir clear ac))
         = New ''Extractor'' [s, n, c, t]))"
proof (intro conjI impI allI)
  fix fs'
  assume a: "mkdir_parents W fs app_dir = Inr fs' \<and>
      (\<not> path_exists fs' (path_join app_dir ''config.json'') \<or>
       \<not> is_readable fs' (path_join app_dir ''config.json''))"
  then have "\<exists>e. read_text fs' (path_join app_dir ''config.json'') = Inl e"
    using read_text_fails by blast
  with a show "load_app_config W json_loads fs app_dir =
        ([Print ''Failed to load config, default options are loaded''],
         Inr (default_config, fs'))"
    by (auto simp: load_app_config_def)
next
  fix e
  assume "mkdir_parents W fs app_dir = Inl e"
  then show "load_app_config W json_loads fs app_dir = ([], Inl e)"
    by (simp add: load_app_config_def)
next
  show "hd (fst (extract_smb (module_globals opened) E default_config in_dir out_dir clear ac)) =
     New ''Extractor'' [PStr ''local'', PInt 1, PInt 16, PStr []]"
    unfolding extract_smb_def new_extractor_default by (subst new_stage_then) simp
  show "hd (fst (extract_revexp (module_globals opened) E default_config in_dir out_dir clear)) =
     New ''Extractor'' [PStr ''local'', PInt 1, PInt 16, PStr []]"
    unfolding extract_revexp_def new_extractor_default by (subst new_stage_then) simp
  show "hd (fst (extract_empl (module_globals opened) E default_config in_dir out_dir clear)) =
     New ''Extractor'' [PStr ''local'', PInt 1, PInt 16, PStr []]"
    unfolding extract_empl_def new_extractor_default by (subst new_stage_then) simp
  show "hd (fst (extract_all (module_globals opened) E default_config in_dir out_dir clear ac)) =
     New ''Extractor'' [PStr ''local'', PInt 1, PInt 16, PStr []]"
    unfolding extract_all_def new_extractor_default by (subst new_stage_then) simp
next
  assume a: "map_of kv ''num_workers'' = Some n \<and> map_of kv ''storage'' \<noteq> Some (PStr ''ydisk'')"
  then have "hd (fst (extract_smb (module_globals opened) E (PDict kv) in_dir out_dir clear ac))
     = New ''Extractor''
       [case map_of kv ''storage'' of None \<Rightarrow> PNone | Some v \<Rightarrow> v, n,
        case map_of kv ''chunksize'' of None \<Rightarrow> PNone | Some v \<Rightarrow> v,
        case map_of kv ''token'' of None \<Rightarrow> PNone | Some v \<Rightarrow> v]"
    unfolding extract_smb_def by (simp add: new_extractor_configured) (subst new_stage_then, simp)
  then show "\<exists>s c t. hd (fst (extract_smb (module_globals opened) E (PDict kv) in_dir out_dir clear ac))
         = New ''Extractor'' [s, n, c, t]"
    by blast
qed (simp_all add: default_values new_extractor_default)

text \<open>
  The claim as stated, that in every run with the configuration file absent the
  defaults are loaded and the extractor is constructed with one worker, does not hold:
  where a regular file stands at the path of the configuration directory, the
  configuration file is absent and the import ends with \<^verbatim>\<open>FileExistsError\<close> at line
  52; nothing is loaded and no command runs.
\<close>

theorem load_config_mkdir_counterexample:
  "\<not> path_exists example_fs (path_join ''in/notes.txt'' ''config.json'') \<and>
   mkdir_parents (\<lambda>d. True) example_fs ''in/notes.txt'' = Inl (FileExistsError ''in/notes.txt'') \<and>
   load_app_config (\<lambda>d. True) (\<lambda>txt. Inr PNone) example_fs ''in/notes.txt''
     = ([], Inl (FileExistsError ''in/notes.txt''))"
proof -
  have p: "rev (path_parts ''in/notes.txt'') = [''notes.txt'', ''in'']"
    by code_simp
  have m: "mkdir_parents (\<lambda>d. True) example_fs ''in/notes.txt'' = Inl (FileExistsError ''in/notes.txt'')"
    unfolding mkdir_parents_def p by (simp add: path_of_def example_fs_def)
  then show ?thesis
    by (simp add: load_app_config_def path_exists_def path_join_def example_fs_def)
qed

theorem default_config_gives_one_worker_witness:
  "mkdir_parents (\<lambda>d. True) example_fs ''in'' = Inr example_fs \<and>
   \<not> path_exists example_fs (path_join ''in'' ''config.json'') \<and>
   load_app_config (\<lambda>d. True) (\<lambda>txt. Inr PNone) example_fs ''in'' =
     ([Print ''Failed to load config, default options are loaded''],
      Inr (default_config, example_fs)) \<and>
   extract_smb (module_globals False) example_stage default_config ''in'' ''out'' False PNone =
     ([New ''Extractor'' [PStr ''local'', PInt 1, PInt 16, PStr []], Print ''Starting Spark'',
       Call ''Extractor'' [PStr ''in'', PStr ''out'', PStr ''smb'', PBool False, PNone] [],
       Print ''called''], Inr ()) \<and>
   map_of [(''num_workers'', PInt 4)] ''num_workers'' = Some (PInt 4) \<and>
   map_of [(''num_workers'', PInt 4)] ''storage'' \<noteq> Some (PStr ''ydisk'') \<and>
   hd (fst (extract_smb (module_globals False) example_stage (PDict [(''num_workers'', PInt 4)])
              ''in'' ''out'' False PNone))
     = New ''Extractor'' [PNone, PInt 4, PNone, PNone]"
proof -
  have p: "rev (path_parts ''in'') = [''in'']"
    by code_simp
  have m: "mkdir_parents (\<lambda>d. True) example_fs ''in'' = Inr example_fs"
    unfolding mkdir_parents_def p by (simp add: path_of_def example_fs_def)
  have h: "\<not> path_exists example_fs (path_join ''in'' ''config.json'')"
    by (simp add: path_exists_def path_join_def example_fs_def)
  have k: "map_of [(''num_workers'', PInt 4)] ''num_workers'' = Some (PInt 4) \<and>
   map_of [(''num_workers'', PInt 4)] ''storage'' \<noteq> Some (PStr ''ydisk'')"
    by simp
  note t = default_config_gives_one_worker
    [where fs = example_fs and app_dir = "''in''" and W = "\<lambda>d. True"
       and json_loads = "\<lambda>txt. Inr PNone"
       and opened = False and E = example_stage and in_dir = "''in''" and out_dir = "''out''"
       and clear = False and ac = PNone and kv = "[(''num_workers'', PInt 4)]" and n = "PInt 4"]
  from t m h have 1: "load_app_config (\<lambda>d. True) (\<lambda>txt. Inr PNone) example_fs ''in'' =
     ([Print ''Failed to load config, default options are loaded''],
      Inr (default_config, example_fs))"
    by blast
  have 3: "extract_smb (module_globals False) example_stage default_config ''in'' ''out'' False PNone =
     ([New ''Extractor'' [PStr ''local'', PInt 1, PInt 16, PStr []], Print ''Starting Spark'',
       Call ''Extractor'' [PStr ''in'', PStr ''out'', PStr ''smb'', PBool False, PNone] [],
       Print ''called''], Inr ())"
    by code_simp
  have 4: "hd (fst (extract_smb (module_globals False) example_stage (PDict [(''num_workers'', PInt 4)])
              ''in'' ''out'' False PNone))
     = New ''Extractor'' [PNone, PInt 4, PNone, PNone]"
    by code_simp
  from m h 1 3 k 4 show ?thesis by blast
qed

section \<open>Proofs: the aggregation fold\<close>

lemma upsert_key: "upsert m r k = (if k = ident r then keep_latest (m k) r else m k)"
  by (simp add: upsert_def keep_latest_def split: option.splits)

lemma fold_rows_key:
  "fold_rows m rs k = foldl keep_latest (m k) (filter (\<lambda>x. ident x = k) rs)"
  by (induction rs arbitrary: m) (simp_all add: upsert_key)

lemma keep_latest_from_some:
  "\<exists>best. foldl keep_latest (Some cur) xs = Some best \<and>
     ((best = cur \<and> (\<forall>j<length xs. snapshot (xs ! j) \<le> snapshot cur)) \<or>
      (\<exists>i<length xs. best = xs ! i \<and> snapshot cur < snapshot best \<and>
          (\<forall>j<length xs. snapshot (xs ! j) \<le> snapshot best) \<and>
          (\<forall>j<i. snapshot (xs ! j) < snapshot best)))"
proof (induction xs arbitrary: cur)
  case Nil
  then show ?case by simp
next
  case (Cons x xs)
  show ?case
  proof (cases "snapshot cur < snapshot x")
    case True
    then have step: "foldl keep_latest (Some cur) (x # xs) = foldl keep_latest (Some x) xs"
      by (simp add: keep_latest_def)
    from Cons.IH [of x] obtain best where b: "foldl keep_latest (Some x) xs = Some best"
      and c: "(best = x \<and> (\<forall>j<length xs. snapshot (xs ! j) \<le> snapshot x)) \<or>
      (\<exists>i<length xs. best = xs ! i \<and> snapshot x < snapshot best \<and>
          (\<forall>j<length xs. snapshot (xs ! j) \<le> snapshot best) \<and>
          (\<forall>j<i. snapshot (xs ! j) < snapshot best))" by blast
    from c show ?thesis
    proof
      assume a: "best = x \<and> (\<forall>j<length xs. snapshot (xs ! j) \<le> snapshot x)"
      have "0 < length (x # xs) \<and> best = (x # xs) ! 0 \<and> snapshot cur < snapshot best \<and>
          (\<forall>j<length (x # xs). snapshot ((x # xs) ! j) \<le> snapshot best) \<and>
          (\<forall>j<0. snapshot ((x # xs) ! j) < snapshot best)"
        using a True by (auto simp: nth_Cons split: nat.splits)
      with b step show ?thesis by (metis)
    next
      assume "\<exists>i<length xs. best = xs ! i \<and> snapshot x < snapshot best \<and>
          (\<forall>j<length xs. snapshot (xs ! j) \<le> snapshot best) \<and>
          (\<forall>j<i. snapshot (xs ! j) < snapshot best)"
      then obtain i where i: "i < length xs" "best = xs ! i" "snapshot x < snapshot best"
          "\<forall>j<length xs. snapshot (xs ! j) \<le> snapshot best"
          "\<forall>j<i. snapshot (xs ! j) < snapshot best" by blast
      have "Suc i < length (x # xs) \<and> best = (x # xs) ! Suc i \<and> snapshot cur < snapshot best \<and>
          (\<forall>j<length (x # xs). snapshot ((x # xs) ! j) \<le> snapshot best) \<and>
          (\<forall>j<Suc i. snapshot ((x # xs) ! j) < snapshot best)"
        using i True by (auto simp: nth_Cons split: nat.splits)
      with b step show ?thesis by metis
    qed
  next
    case False
    then have step: "foldl keep_latest (Some cur) (x # xs) = foldl keep_latest (Some cur) xs"
      by (simp add: keep_latest_def)
    from False have le: "snapshot x \<le> snapshot cur" by simp
    from Cons.IH [of cur] obtain best where b: "foldl keep_latest (Some cur) xs = Some best"
      and c: "(best = cur \<and> (\<forall>j<length xs. snapshot (xs ! j) \<le> snapshot cur)) \<or>
      (\<exists>i<length xs. best = xs ! i \<and> snapshot cur < snapshot best \<and>
          (\<forall>j<length xs. snapshot (xs ! j) \<le> snapshot best) \<and>
          (\<forall>j<i. snapshot (xs ! j) < snapshot best))" by blast
    from c show ?thesis
    proof
      assume a: "best = cur \<and> (\<forall>j<length xs. snapshot (xs ! j) \<le> snapshot cur)"
      have "best = cur \<and> (\<forall>j<length (x # xs). snapshot ((x # xs) ! j) \<le> snapshot cur)"
        using a le by (auto simp: nth_Cons split: nat.splits)
      with b step show ?thesis by metis
    next
      assume "\<exists>i<length xs. best = xs ! i \<and> snapshot cur < snapshot best \<and>
          (\<forall>j<length xs. snapshot (xs ! j) \<le> snapshot best) \<and>
          (\<forall>j<i. snapshot (xs ! j) < snapshot best)"
      then obtain i where i: "i < length xs" "best = xs ! i" "snapshot cur < snapshot best"
          "\<forall>j<length xs. snapshot (xs ! j) \<le> snapshot best"
          "\<forall>j<i. snapshot (xs ! j) < snapshot best" by blast
      have "Suc i < length (x # xs) \<and> best = (x # xs) ! Suc i \<and> snapshot cur < snapshot best \<and>
          (\<forall>j<length (x # xs). snapshot ((x # xs) ! j) \<le> snapshot best) \<and>
          (\<forall>j<Suc i. snapshot ((x # xs) ! j) < snapshot best)"
        using i le by (auto simp: nth_Cons split: nat.splits)
      with b step show ?thesis by metis
    qed
  qed
qed

lemma keep_latest_from_none:
  "xs \<noteq> [] \<Longrightarrow>
   \<exists>i<length xs. foldl keep_latest None xs = Some (xs ! i) \<and>
      (\<forall>j<length xs. snapshot (xs ! j) \<le> snapshot (xs ! i)) \<and>
      (\<forall>j<i. snapshot (xs ! j) < snapshot (xs ! i))"
proof (cases xs)
  case Nil
  assume "xs \<noteq> []"
  with Nil show ?thesis by simp
next
  case (Cons x rest)
  have step: "foldl keep_latest None xs = foldl keep_latest (Some x) rest"
    by (simp add: Cons keep_latest_def)
  from keep_latest_from_some [of x rest] obtain best where
    b: "foldl keep_latest (Some x) rest = Some best"
    and c: "(best = x \<and> (\<forall>j<length rest. snapshot (rest ! j) \<le> snapshot x)) \<or>
      (\<exists>i<length rest. best = rest ! i \<and> snapshot x < snapshot best \<and>
          (\<forall>j<length rest. snapshot (rest ! j) \<le> snapshot best) \<and>
          (\<forall>j<i. snapshot (rest ! j) < snapshot best))" by blast
  from c show ?thesis
  proof
    assume a: "best = x \<and> (\<forall>j<length rest. snapshot (rest ! j) \<le> snapshot x)"
    have "0 < length xs \<and> foldl keep_latest None xs = Some (xs ! 0) \<and>
      (\<forall>j<length xs. snapshot (xs ! j) \<le> snapshot (xs ! 0)) \<and>
      (\<forall>j<0. snapshot (xs ! j) < snapshot (xs ! 0))"
      using a b step by (auto simp: Cons nth_Cons split: nat.splits)
    then show ?thesis by blast
  next
    assume "\<exists>i<length rest. best = rest ! i \<and> snapshot x < snapshot best \<and>
          (\<forall>j<length rest. snapshot (rest ! j) \<le> snapshot best) \<and>
          (\<forall>j<i. snapshot (rest ! j) < snapshot best)"
    then obtain i where i: "i < length rest" "best = rest ! i" "snapshot x < snapshot best"
          "\<forall>j<length rest. snapshot (rest ! j) \<le> snapshot best"
          "\<forall>j<i. snapshot (rest ! j) < snapshot best" by blast
    have "Suc i < length xs \<and> foldl keep_latest None xs = Some (xs ! Suc i) \<and>
      (\<forall>j<length xs. snapshot (xs ! j) \<le> snapshot (xs ! Suc i)) \<and>
      (\<forall>j<Suc i. snapshot (xs ! j) < snapshot (xs ! Suc i))"
      using i b step by (auto simp: Cons nth_Cons split: nat.splits)
    then show ?thesis by blast
  qed
qed

text \<open>
  Claim C1, on the fold of the spec. One step: a row whose identifier is not in the map
  is inserted; a row whose identifier is in the map replaces the stored row exactly
  when its snapshot date is strictly more recent, and otherwise, an equal date
  included, the stored row stays; no other identifier is touched. The whole fold: an
  identifier that no input row carries is not in the result; for any other identifier
  the result is one of the rows that carry it, with a date that no such row exceeds,
  and every such row before it in the input is strictly older, so among rows of the
  latest date the first one met is the one kept.
\<close>

theorem latest_snapshot_wins_first_seen:
  fixes rs :: "('d::linorder) row list"
  shows
  "(m (ident r) = None \<longrightarrow> upsert m r (ident r) = Some r) \<and>
   (\<forall>old. m (ident r) = Some old \<longrightarrow>
      upsert m r (ident r) = Some (if snapshot old < snapshot r then r else old)) \<and>
   (\<forall>k. k \<noteq> ident r \<longrightarrow> upsert m r k = m k) \<and>
   (filter (\<lambda>x. ident x = k) rs = [] \<longrightarrow> aggregate_rows rs k = None) \<and>
   (filter (\<lambda>x. ident x = k) rs \<noteq> [] \<longrightarrow>
      (\<exists>i < length (filter (\<lambda>x. ident x = k) rs).
         aggregate_rows rs k = Some (filter (\<lambda>x. ident x = k) rs ! i) \<and>
         (\<forall>j < length (filter (\<lambda>x. ident x = k) rs).
            snapshot (filter (\<lambda>x. ident x = k) rs ! j)
              \<le> snapshot (filter (\<lambda>x. ident x = k) rs ! i)) \<and>
         (\<forall>j < i.
            snapshot (filter (\<lambda>x. ident x = k) rs ! j)
              < snapshot (filter (\<lambda>x. ident x = k) rs ! i))))"
proof (intro conjI allI impI)
  assume "m (ident r) = None"
  then show "upsert m r (ident r) = Some r" by (simp add: upsert_def)
next
  fix old
  assume "m (ident r) = Some old"
  then show "upsert m r (ident r) = Some (if snapshot old < snapshot r then r else old)"
    by (simp add: upsert_def)
next
  fix k'
  assume "k' \<noteq> ident r"
  then show "upsert m r k' = m k'" by (simp add: upsert_key)
next
  assume "filter (\<lambda>x. ident x = k) rs = []"
  then show "aggregate_rows rs k = None"
    by (simp add: aggregate_rows_def fold_rows_key)
next
  assume "filter (\<lambda>x. ident x = k) rs \<noteq> []"
  from keep_latest_from_none [OF this]
  show "\<exists>i < length (filter (\<lambda>x. ident x = k) rs).
         aggregate_rows rs k = Some (filter (\<lambda>x. ident x = k) rs ! i) \<and>
         (\<forall>j < length (filter (\<lambda>x. ident x = k) rs).
            snapshot (filter (\<lambda>x. ident x = k) rs ! j)
              \<le> snapshot (filter (\<lambda>x. ident x = k) rs ! i)) \<and>
         (\<forall>j < i.
            snapshot (filter (\<lambda>x. ident x = k) rs ! j)
              < snapshot (filter (\<lambda>x. ident x = k) rs ! i))"
    by (simp add: aggregate_rows_def fold_rows_key)
qed


theorem latest_snapshot_wins_first_seen_witness:
  "filter (\<lambda>x. ident x = ''7701'') [row_2021, row_2022, row_tie] \<noteq> [] \<and>
   aggregate_rows [row_2021, row_2022, row_tie] ''7701'' = Some row_2022 \<and>
   aggregate_rows [row_2022, row_2021] ''7701'' = Some row_2022 \<and>
   aggregate_rows [row_tie, row_2022] ''7701'' = Some row_tie \<and>
   Map.empty (ident row_2021) = None \<and>
   upsert Map.empty row_2021 (ident row_2021) = Some row_2021 \<and>
   (upsert Map.empty row_2022) (ident row_tie) = Some row_2022 \<and>
   upsert (upsert Map.empty row_2022) row_tie (ident row_tie) = Some row_2022"
proof -
  have f: "filter (\<lambda>x. ident x = ''7701'') [row_2021, row_2022, row_tie] = [row_2021, row_2022, row_tie]"
    by (simp add: row_2021_def row_2022_def row_tie_def)
  have s: "snapshot row_2021 < snapshot row_2022" "snapshot row_tie = snapshot row_2022"
    "row_tie \<noteq> row_2022"
    by (simp_all add: row_2021_def row_2022_def row_tie_def)
  note t = latest_snapshot_wins_first_seen
  from f have ne: "filter (\<lambda>x. ident x = ''7701'') [row_2021, row_2022, row_tie] \<noteq> []"
    by simp
  from t [where rs = "[row_2021, row_2022, row_tie]" and k = "''7701''"] ne
  have "\<exists>i < length (filter (\<lambda>x. ident x = ''7701'') [row_2021, row_2022, row_tie]).
         aggregate_rows [row_2021, row_2022, row_tie] ''7701''
           = Some (filter (\<lambda>x. ident x = ''7701'') [row_2021, row_2022, row_tie] ! i) \<and>
         (\<forall>j < length (filter (\<lambda>x. ident x = ''7701'') [row_2021, row_2022, row_tie]).
            snapshot (filter (\<lambda>x. ident x = ''7701'') [row_2021, row_2022, row_tie] ! j)
              \<le> snapshot (filter (\<lambda>x. ident x = ''7701'') [row_2021, row_2022, row_tie] ! i)) \<and>
         (\<forall>j < i.
            snapshot (filter (\<lambda>x. ident x = ''7701'') [row_2021, row_2022, row_tie] ! j)
              < snapshot (filter (\<lambda>x. ident x = ''7701'') [row_2021, row_2022, row_tie] ! i))"
    by blast
  then obtain i where i: "i < length [row_2021, row_2022, row_tie]"
    "aggregate_rows [row_2021, row_2022, row_tie] ''7701'' = Some ([row_2021, row_2022, row_tie] ! i)"
    "\<forall>j < length [row_2021, row_2022, row_tie].
       snapshot ([row_2021, row_2022, row_tie] ! j) \<le> snapshot ([row_2021, row_2022, row_tie] ! i)"
    "\<forall>j<i. snapshot ([row_2021, row_2022, row_tie] ! j) < snapshot ([row_2021, row_2022, row_tie] ! i)"
    unfolding f by blast
  from i(1) have "i < 3" by simp
  then have "i = 0 \<or> i = 1 \<or> i = 2" by arith
  then have "i = 1"
  proof (elim disjE)
    assume z: "i = 0"
    from i(3) [rule_format, of 1] have "snapshot ([row_2021, row_2022, row_tie] ! 1)
        \<le> snapshot ([row_2021, row_2022, row_tie] ! i)" by simp
    with z s show ?thesis by simp
  next
    assume z: "i = 2"
    from i(4) [rule_format, of 1] z have "snapshot ([row_2021, row_2022, row_tie] ! 1)
        < snapshot ([row_2021, row_2022, row_tie] ! i)" by simp
    with z s show ?thesis by simp
  qed simp
  with i(2) have 1: "aggregate_rows [row_2021, row_2022, row_tie] ''7701'' = Some row_2022" by simp
  have 2: "aggregate_rows [row_2022, row_2021] ''7701'' = Some row_2022"
    "aggregate_rows [row_tie, row_2022] ''7701'' = Some row_tie"
    by (simp_all add: aggregate_rows_def upsert_def row_2021_def row_2022_def row_tie_def)
  have e: "Map.empty (ident row_2021) = None" by simp
  from t [where m = Map.empty and r = row_2021 and rs = "[]" and k = "[]"] e
  have 3: "upsert Map.empty row_2021 (ident row_2021) = Some row_2021" by blast
  have u: "(upsert Map.empty row_2022) (ident row_tie) = Some row_2022"
    by (simp add: upsert_def row_2022_def row_tie_def)
  note t4 = t [where m = "upsert Map.empty row_2022" and r = row_tie and rs = "[]" and k = "[]"]
  from t4 have "\<forall>old. upsert Map.empty row_2022 (ident row_tie) = Some old \<longrightarrow>
      upsert (upsert Map.empty row_2022) row_tie (ident row_tie)
        = Some (if snapshot old < snapshot row_tie then row_tie else old)"
    by (rule conjunct2 [THEN conjunct1])
  with u have "upsert (upsert Map.empty row_2022) row_tie (ident row_tie)
        = Some (if snapshot row_2022 < snapshot row_tie then row_tie else row_2022)"
    by blast
  with s have 4: "upsert (upsert Map.empty row_2022) row_tie (ident row_tie) = Some row_2022"
    by simp
  from ne 1 2 e 3 u 4 show ?thesis by blast
qed

section \<open>Proofs: the activity-code filter\<close>

lemma split_on_not_Nil: "split_on d s \<noteq> []"
  by (induction s) (simp_all split: list.split)

lemma split_on_plain: "d \<notin> set x \<Longrightarrow> split_on d x = [x]"
  by (induction x) auto

lemma split_on_append: "d \<notin> set x \<Longrightarrow> split_on d (x @ d # rest) = x # split_on d rest"
  by (induction x) auto

lemma split_on_join:
  "segs \<noteq> [] \<Longrightarrow> \<forall>seg \<in> set segs. d \<notin> set seg \<Longrightarrow> split_on d (join_with [d] segs) = segs"
proof (induction "[d]" segs rule: join_with.induct)
  case 1
  then show ?case by simp
next
  case (2 x)
  then show ?case by (simp add: split_on_plain)
next
  case (3 x y ys)
  then show ?case by (simp add: split_on_append)
qed

lemma digits_no_dot: "list_all is_digit seg \<Longrightarrow> CHR ''.'' \<notin> set seg"
proof
  assume "list_all is_digit seg" "CHR ''.'' \<in> set seg"
  then have "is_digit (CHR ''.'')" by (simp add: list_all_iff)
  then show False by (simp add: is_digit_def)
qed

lemma truncation_is_code:
  assumes c: "is_dotted_code c" and f: "truncate_code c (segment_count f) = f"
  shows "is_dotted_code f"
proof -
  let ?segs = "take (segment_count f) (segments c)"
  have all: "\<forall>seg \<in> set (segments c). seg \<noteq> [] \<and> list_all is_digit seg"
    using c by (simp add: is_dotted_code_def list_all_iff)
  have sub: "set ?segs \<subseteq> set (segments c)" by (rule set_take_subset)
  have "0 < segment_count f" by (simp add: segment_count_def segments_def split_on_not_Nil)
  moreover have "segments c \<noteq> []" by (simp add: segments_def split_on_not_Nil)
  ultimately have ne: "?segs \<noteq> []" by simp
  have nodot: "\<forall>seg \<in> set ?segs. CHR ''.'' \<notin> set seg"
    using all sub digits_no_dot by blast
  have "split_on (CHR ''.'') (join_with ''.'' ?segs) = ?segs"
    by (rule split_on_join [OF ne nodot])
  then have "segments (truncate_code c (segment_count f)) = ?segs"
    by (simp only: segments_def truncate_code_def)
  then have eq: "segments f = ?segs" by (simp only: f)
  have "\<forall>seg \<in> set ?segs. seg \<noteq> [] \<and> list_all is_digit seg"
    using all sub by blast
  then have "\<forall>seg \<in> set (segments f). seg \<noteq> [] \<and> list_all is_digit seg"
    by (simp only: eq)
  then show ?thesis by (simp only: is_dotted_code_def list_all_iff)
qed

text \<open>
  Claim C2, on the filter of the spec. For an activity code whose dotted code is well
  formed and a configured filter \<open>f\<close> that is an ancestor prefix of it (the code
  truncated to the segment count of \<open>f\<close> is \<open>f\<close>), \<open>matches\<close> is true: such
  a filter is itself a dotted code, so the tree stores it. With an empty filter list
  \<open>matches\<close> is true for every code.
\<close>

theorem ancestor_filter_matches:
  "(is_dotted_code (dotted c) \<and> f \<in> set filters \<and>
    truncate_code (dotted c) (segment_count f) = f \<longrightarrow> matches (build_code_tree filters) c) \<and>
   matches (build_code_tree []) c"
proof (intro conjI impI)
  assume a: "is_dotted_code (dotted c) \<and> f \<in> set filters \<and>
    truncate_code (dotted c) (segment_count f) = f"
  then have wf: "is_dotted_code (dotted c)" and fin: "f \<in> set filters"
    and tr: "truncate_code (dotted c) (segment_count f) = f"
    by blast+
  have code: "is_dotted_code f" by (rule truncation_is_code [OF wf tr])
  have mem: "f \<in> set (code_filters (build_code_tree filters))"
    using fin code by (simp add: build_code_tree_def)
  have ex: "list_ex (\<lambda>g. truncate_code (dotted c) (segment_count g) = g)
      (code_filters (build_code_tree filters))"
    unfolding list_ex_iff using mem tr by blast
  have nz: "n_filters (build_code_tree filters) \<noteq> 0"
    using fin by (cases filters) (simp_all add: build_code_tree_def)
  show "matches (build_code_tree filters) c"
    unfolding matches_def using wf ex nz by simp
next
  show "matches (build_code_tree []) c"
    by (simp add: matches_def build_code_tree_def)
qed


theorem ancestor_filter_matches_witness:
  "is_dotted_code (dotted example_code) \<and> ''01.10'' \<in> set [''69.20'', ''01.10''] \<and>
   truncate_code (dotted example_code) (segment_count ''01.10'') = ''01.10'' \<and>
   matches (build_code_tree [''69.20'', ''01.10'']) example_code \<and>
   \<not> matches (build_code_tree [''69.20'', ''01.11'']) example_code \<and>
   matches (build_code_tree [''A'']) example_code \<and>
   matches (build_code_tree []) example_code"
proof -
  have h: "is_dotted_code (dotted example_code) \<and> ''01.10'' \<in> set [''69.20'', ''01.10''] \<and>
   truncate_code (dotted example_code) (segment_count ''01.10'') = ''01.10''"
    by code_simp
  have o: "\<not> matches (build_code_tree [''69.20'', ''01.11'']) example_code"
    "matches (build_code_tree [''A'']) example_code"
    by code_simp+
  from ancestor_filter_matches [of example_code "''01.10''" "[''69.20'', ''01.10'']"] h o
  show ?thesis by blast
qed

end
